theory Spec2Isabelle
  imports Complex_Main
begin

text \<open>
  A model of the three components of the sensor front-end: the screen container
  (\<^verbatim>\<open>Screen.js\<close>), the 3D model view (\<^verbatim>\<open>Model\<close>) and the time-series chart
  (\<^verbatim>\<open>Chart.js\<close>). The \<^verbatim>\<open>useState\<close> cells of a component are the fields of a record.
  A handler or an effect is a function from the state of the render it closed over to
  the state after its setter calls; one that can throw returns \<open>error + state\<close>, and
  the event that called it then leaves the state as it was. Rendering is not modelled.
\<close>

section \<open>JavaScript values\<close>

text \<open>
  A JavaScript number is a finite value, one of the two infinities, or NaN. Finite
  values are taken as reals: rounding, overflow and the sign of zero are not modelled.
  The infinities and NaN are modelled, because the handlers below divide by a layout
  width that starts at 0, take the minimum of a possibly empty list and compare against
  array elements that may be missing.
\<close>

datatype jsnum = Fin real | PInf | NInf | NaN

fun jsNeg :: "jsnum \<Rightarrow> jsnum" where
  "jsNeg (Fin a) = Fin (- a)"
| "jsNeg PInf = NInf"
| "jsNeg NInf = PInf"
| "jsNeg NaN = NaN"

fun jsAdd :: "jsnum \<Rightarrow> jsnum \<Rightarrow> jsnum" where
  "jsAdd (Fin a) (Fin b) = Fin (a + b)"
| "jsAdd NaN _ = NaN"
| "jsAdd _ NaN = NaN"
| "jsAdd PInf NInf = NaN"
| "jsAdd NInf PInf = NaN"
| "jsAdd PInf _ = PInf"
| "jsAdd _ PInf = PInf"
| "jsAdd NInf _ = NInf"
| "jsAdd _ NInf = NInf"

definition jsSub :: "jsnum \<Rightarrow> jsnum \<Rightarrow> jsnum" where
  "jsSub a b = jsAdd a (jsNeg b)"

fun jsMul :: "jsnum \<Rightarrow> jsnum \<Rightarrow> jsnum" where
  "jsMul (Fin a) (Fin b) = Fin (a * b)"
| "jsMul NaN _ = NaN"
| "jsMul _ NaN = NaN"
| "jsMul (Fin a) PInf = (if a = 0 then NaN else if 0 < a then PInf else NInf)"
| "jsMul (Fin a) NInf = (if a = 0 then NaN else if 0 < a then NInf else PInf)"
| "jsMul PInf (Fin b) = (if b = 0 then NaN else if 0 < b then PInf else NInf)"
| "jsMul NInf (Fin b) = (if b = 0 then NaN else if 0 < b then NInf else PInf)"
| "jsMul PInf PInf = PInf"
| "jsMul PInf NInf = NInf"
| "jsMul NInf PInf = NInf"
| "jsMul NInf NInf = PInf"

fun jsDiv :: "jsnum \<Rightarrow> jsnum \<Rightarrow> jsnum" where
  "jsDiv (Fin a) (Fin b) =
     (if b \<noteq> 0 then Fin (a / b)
      else if a = 0 then NaN else if 0 < a then PInf else NInf)"
| "jsDiv NaN _ = NaN"
| "jsDiv _ NaN = NaN"
| "jsDiv (Fin a) _ = Fin 0"
| "jsDiv PInf (Fin b) = (if 0 \<le> b then PInf else NInf)"
| "jsDiv NInf (Fin b) = (if 0 \<le> b then NInf else PInf)"
| "jsDiv _ _ = NaN"

fun jsAbs :: "jsnum \<Rightarrow> jsnum" where
  "jsAbs (Fin a) = Fin \<bar>a\<bar>"
| "jsAbs PInf = PInf"
| "jsAbs NInf = PInf"
| "jsAbs NaN = NaN"

text \<open>\<^verbatim>\<open>x ** 0.5\<close>: NaN on a negative base, the square root otherwise.\<close>

fun jsPowHalf :: "jsnum \<Rightarrow> jsnum" where
  "jsPowHalf (Fin a) = (if a < 0 then NaN else Fin (sqrt a))"
| "jsPowHalf PInf = PInf"
| "jsPowHalf NInf = PInf"
| "jsPowHalf NaN = NaN"

text \<open>The relational operators: every comparison with NaN is false.\<close>

fun jsLt :: "jsnum \<Rightarrow> jsnum \<Rightarrow> bool" where
  "jsLt (Fin a) (Fin b) = (a < b)"
| "jsLt NaN _ = False"
| "jsLt _ NaN = False"
| "jsLt _ NInf = False"
| "jsLt PInf _ = False"
| "jsLt _ _ = True"

fun jsLe :: "jsnum \<Rightarrow> jsnum \<Rightarrow> bool" where
  "jsLe (Fin a) (Fin b) = (a \<le> b)"
| "jsLe NaN _ = False"
| "jsLe _ NaN = False"
| "jsLe NInf _ = True"
| "jsLe _ PInf = True"
| "jsLe _ _ = False"

definition jsGt :: "jsnum \<Rightarrow> jsnum \<Rightarrow> bool" where
  "jsGt a b = jsLt b a"

definition jsGe :: "jsnum \<Rightarrow> jsnum \<Rightarrow> bool" where
  "jsGe a b = jsLe b a"

text \<open>
  \<^verbatim>\<open>Math.min(...xs)\<close> and \<^verbatim>\<open>Math.max(...xs)\<close>: NaN as soon as one argument is NaN,
  \<open>+Infinity\<close> and \<open>-Infinity\<close> on no argument.
\<close>

definition jsMin2 :: "jsnum \<Rightarrow> jsnum \<Rightarrow> jsnum" where
  "jsMin2 a b = (if a = NaN \<or> b = NaN then NaN else if jsLt b a then b else a)"

definition jsMax2 :: "jsnum \<Rightarrow> jsnum \<Rightarrow> jsnum" where
  "jsMax2 a b = (if a = NaN \<or> b = NaN then NaN else if jsLt a b then b else a)"

definition mathMin :: "jsnum list \<Rightarrow> jsnum" where
  "mathMin xs = foldl jsMin2 PInf xs"

definition mathMax :: "jsnum list \<Rightarrow> jsnum" where
  "mathMax xs = foldl jsMax2 NInf xs"

text \<open>
  \<^verbatim>\<open>xs[i]\<close> on an array of numbers. Outside the array the read gives \<^verbatim>\<open>undefined\<close>,
  which every arithmetic operator and comparison that receives it reads as NaN.
\<close>

definition numAt :: "jsnum list \<Rightarrow> int \<Rightarrow> jsnum" where
  "numAt xs i = (if 0 \<le> i \<and> nat i < length xs then xs ! nat i else NaN)"

text \<open>General values: what \<^verbatim>\<open>JSON.parse\<close> can return, and \<^verbatim>\<open>undefined\<close>.\<close>

datatype jsval =
    Undefined
  | Null
  | Bool bool
  | Num jsnum
  | Str string
  | Arr "jsval list"
  | Obj "(string \<times> jsval) list"

type_synonym sample = "(string \<times> jsval) list"

datatype error = TypeError | ReferenceError | SyntaxError

fun truthy :: "jsval \<Rightarrow> bool" where
  "truthy Undefined = False"
| "truthy Null = False"
| "truthy (Bool b) = b"
| "truthy (Num n) = (n \<noteq> Fin 0 \<and> n \<noteq> NaN)"
| "truthy (Str s) = (s \<noteq> [])"
| "truthy (Arr _) = True"
| "truthy (Obj _) = True"

text \<open>\<^verbatim>\<open>xs[i]\<close> on an array of values.\<close>

definition valAt :: "jsval list \<Rightarrow> int \<Rightarrow> jsval" where
  "valAt xs i = (if 0 \<le> i \<and> nat i < length xs then xs ! nat i else Undefined)"

text \<open>
  \<^verbatim>\<open>v[key]\<close> for a key that is a package name: a TypeError on \<^verbatim>\<open>null\<close> and
  \<^verbatim>\<open>undefined\<close>, the property of an object, and \<^verbatim>\<open>undefined\<close> on the other values,
  which have no property of that name.
\<close>

fun getProp :: "jsval \<Rightarrow> string \<Rightarrow> error + jsval" where
  "getProp Undefined key = Inl TypeError"
| "getProp Null key = Inl TypeError"
| "getProp (Obj kvs) key = Inr (case map_of kvs key of None \<Rightarrow> Undefined | Some v \<Rightarrow> v)"
| "getProp _ key = Inr Undefined"

text \<open>The decimal text of an array index, the key under which an element is listed.\<close>

fun indexKey :: "nat \<Rightarrow> string" where
  "indexKey n =
     (if n < 10 then [char_of (48 + n)]
      else indexKey (n div 10) @ [char_of (48 + n mod 10)])"

declare indexKey.simps [simp del]

text \<open>\<^verbatim>\<open>Object.entries(v)\<close> on a value that is neither \<^verbatim>\<open>null\<close> nor \<^verbatim>\<open>undefined\<close>.\<close>

fun entries :: "jsval \<Rightarrow> (string \<times> jsval) list" where
  "entries (Obj kvs) = kvs"
| "entries (Arr xs) = zip (map indexKey [0..<length xs]) xs"
| "entries (Str s) = zip (map indexKey [0..<length s]) (map (\<lambda>c. Str [c]) s)"
| "entries _ = []"

section \<open>The environment of the components\<close>

text \<open>
  What the components import from modules outside the three source files, and the
  language's own library, are parameters of the model:
  \<^item> \<open>os\<close>: \<^verbatim>\<open>Platform.OS\<close> of react-native;
  \<^item> \<open>globalPlatform\<close>: the OS of a global binding named \<^verbatim>\<open>Platform\<close>, if the host
    defines one (\<^verbatim>\<open>Chart.js\<close> uses \<^verbatim>\<open>Platform\<close> without importing it);
  \<^item> \<open>coerce\<close>: the number a string, an array or an object converts to;
  \<^item> \<open>numToString\<close>: the text of a number inside a template literal;
  \<^item> \<open>dateParse\<close>: \<^verbatim>\<open>Date.parse\<close>;
  \<^item> \<open>jsonParse\<close>: \<^verbatim>\<open>JSON.parse\<close>, \<open>None\<close> when it throws a SyntaxError;
  \<^item> \<open>chartColours\<close>, \<open>modelColourScale\<close>: the tables of \<^verbatim>\<open>../utils\<close>;
  \<^item> \<open>fetchData\<close>, \<open>fetchTemperatureData\<close>, \<open>fetchSensorNames\<close>: the outcome of
    the requests of \<^verbatim>\<open>../utils\<close>, \<open>Inl\<close> the value a rejected request throws.
\<close>

record env =
  os :: string
  globalPlatform :: "string option"
  coerce :: "jsval \<Rightarrow> jsnum"
  numToString :: "jsnum \<Rightarrow> string"
  dateParse :: "jsval \<Rightarrow> jsnum"
  jsonParse :: "string \<Rightarrow> jsval option"
  chartColours :: "string list"
  modelColourScale :: "string \<Rightarrow> jsnum list option"
  fetchData :: "string \<Rightarrow> string \<Rightarrow> string \<Rightarrow> string \<Rightarrow> string \<Rightarrow> string + sample list"
  fetchTemperatureData :: "string \<Rightarrow> string \<Rightarrow> string + jsval"
  fetchSensorNames :: "string \<Rightarrow> string \<Rightarrow> string + string list"

text \<open>The number a value is read as by \<^verbatim>\<open><\<close>, \<^verbatim>\<open>>\<close>, \<^verbatim>\<open>-\<close> and \<^verbatim>\<open>Math.min\<close>.\<close>

fun toNumber :: "env \<Rightarrow> jsval \<Rightarrow> jsnum" where
  "toNumber E (Num n) = n"
| "toNumber E Undefined = NaN"
| "toNumber E Null = Fin 0"
| "toNumber E (Bool b) = Fin (if b then 1 else 0)"
| "toNumber E v = coerce E v"

text \<open>\<^verbatim>\<open>Platform.select({ default: 0, ios: 1 })\<close>\<close>

definition platformSelect :: "string \<Rightarrow> nat" where
  "platformSelect osName = (if osName = ''ios'' then 1 else 0)"

section \<open>State of the screen container (Screen.js)\<close>

record screen_state =
  dataType :: string
  liveDataType :: string
  averagingWindow :: string
  startTime :: string
  endTime :: string

record sensor =
  name :: string
  isSelected :: bool
  colour :: "string option"

record chart_options =
  sensors :: "sensor list"
  showTemperature :: bool
  temperatureData :: jsval

record model_options =
  showContext :: bool
  colourMode :: nat
  scale :: "jsnum list option"

text \<open>
  The \<^verbatim>\<open>useState\<close> cells of \<^verbatim>\<open>Screen\<close>, and two effects on the outside made
  explicit: \<open>alerts\<close> is the list of \<^verbatim>\<open>Alert.alert(title, message)\<close> calls so far,
  \<open>socket\<close> the URL of the WebSocket the live effect holds open.
\<close>

record screen =
  data :: "sample list"
  mode :: nat
  live :: bool
  liveData :: "jsval list"
  liveMode :: bool
  dataRange :: "jsnum list"
  isLoading :: bool
  screenState :: screen_state
  chartOptions :: chart_options
  modelOptions :: model_options
  showVisualisation :: bool
  alerts :: "(string \<times> string) list"
  socket :: "string option"

record props =
  packageServerName :: string
  packageURL :: string

definition Screen_init :: screen where
  "Screen_init =
    \<lparr> data = [], mode = 0, live = False, liveData = [], liveMode = False, dataRange = [],
      isLoading = False,
      screenState = \<lparr> dataType = '''', liveDataType = ''str'', averagingWindow = '''',
                      startTime = '''', endTime = '''' \<rparr>,
      chartOptions = \<lparr> sensors = [], showTemperature = False, temperatureData = Arr [] \<rparr>,
      modelOptions = \<lparr> showContext = True, colourMode = 1,
                       scale = Some [Fin (- 200), Fin 200] \<rparr>,
      showVisualisation = True, alerts = [], socket = None \<rparr>"

section \<open>The 3D model view (Model)\<close>

text \<open>
  \<^verbatim>\<open>Model\<close> receives \<open>data\<close>, \<open>liveMode\<close>, \<open>liveData\<close> and \<open>modelOptions\<close> of the
  screen as its props; the functions below read them from the screen record \<open>P\<close>.
\<close>

record euler =
  ex :: jsnum
  ey :: jsnum
  ez :: jsnum

text \<open>\<^verbatim>\<open>new THREE.Euler(x, y)\<close>: the third angle defaults to 0.\<close>

definition Euler :: "jsnum \<Rightarrow> jsnum \<Rightarrow> euler" where
  "Euler x y = \<lparr> ex = x, ey = y, ez = Fin 0 \<rparr>"

record model =
  rotation :: euler
  sensorColours :: "(string \<times> string) list"
  index :: nat
  zoom :: jsnum
  baseZoom :: jsnum

definition Model_init :: model where
  "Model_init =
    \<lparr> rotation = Euler (Fin 0) (Fin 0), sensorColours = [], index = 0,
      zoom = Fin 1, baseZoom = Fin 1 \<rparr>"

definition hue :: "jsnum \<Rightarrow> jsnum \<Rightarrow> jsnum \<Rightarrow> jsnum" where
  "hue v mn mx = jsMul (jsSub (Fin 1) (jsDiv (jsSub v mn) (jsSub mx mn))) (Fin 270)"

definition mapColour :: "env \<Rightarrow> screen \<Rightarrow> jsval \<Rightarrow> error + string" where
  "mapColour E P v =
     (case scale (modelOptions P) of
        None \<Rightarrow> Inl TypeError
      | Some sc \<Rightarrow>
          (let mn = numAt sc 0; mx = numAt sc 1; x = toNumber E v in
           if jsLt x mx \<and> jsGt x mn
           then Inr (''hsl('' @ numToString E (hue x mn mx) @ '',100%,50%)'')
           else Inr ''grey''))"

fun mapColours :: "env \<Rightarrow> screen \<Rightarrow> (string \<times> jsval) list \<Rightarrow> error + (string \<times> string) list" where
  "mapColours E P [] = Inr []"
| "mapColours E P ((sensorName, v) # rest) =
     (case mapColour E P v of
        Inl e \<Rightarrow> Inl e
      | Inr c \<Rightarrow>
          (case mapColours E P rest of
             Inl e \<Rightarrow> Inl e
           | Inr cs \<Rightarrow> Inr ((sensorName, c) # cs)))"

text \<open>The effect that recomputes the sensor colours from the current sample.\<close>

definition currentSample :: "screen \<Rightarrow> model \<Rightarrow> jsval" where
  "currentSample P s =
     (if liveMode P then valAt (liveData P) (int (length (liveData P)) - 1)
      else (if index s < length (data P) then Obj (data P ! index s) else Undefined))"

definition colourEffect :: "env \<Rightarrow> screen \<Rightarrow> model \<Rightarrow> error + model" where
  "colourEffect E P s =
     (let smp = currentSample P s
      in if truthy smp
         then (case mapColours E P (entries smp) of
                 Inl e \<Rightarrow> Inl e
               | Inr colours \<Rightarrow> Inr (s\<lparr>sensorColours := colours\<rparr>))
         else Inr s)"

record touch =
  currentPageX :: jsnum
  previousPageX :: jsnum
  currentPageY :: jsnum
  previousPageY :: jsnum

text \<open>
  The touch bank of a responder event is an array with holes: reading a field of a
  missing entry throws a TypeError.
\<close>

type_synonym touch_event = "touch option list"

definition touchAt :: "touch_event \<Rightarrow> nat \<Rightarrow> error + touch" where
  "touchAt bank i =
     (if i < length bank then (case bank ! i of None \<Rightarrow> Inl TypeError | Some t \<Rightarrow> Inr t)
      else Inl TypeError)"

definition Model_handleResponderMove :: "env \<Rightarrow> model \<Rightarrow> touch_event \<Rightarrow> error + model" where
  "Model_handleResponderMove E s event =
     (case touchAt event (platformSelect (os E)) of
        Inl e \<Rightarrow> Inl e
      | Inr touchBank \<Rightarrow>
          (let changeX = jsDiv (jsSub (currentPageX touchBank) (previousPageX touchBank)) (Fin 200);
               changeY = jsDiv (jsSub (currentPageY touchBank) (previousPageY touchBank)) (Fin 200)
           in Inr (s\<lparr>rotation :=
                Euler (jsAdd (ex (rotation s)) changeY) (jsAdd (ey (rotation s)) changeX)\<rparr>)))"

definition Model_handlePinchGestureEvent :: "model \<Rightarrow> jsnum \<Rightarrow> model" where
  "Model_handlePinchGestureEvent s eventScale =
     (let newZoom = jsMul (baseZoom s) (jsPowHalf eventScale) in
      if jsGt (jsAbs (jsSub newZoom (zoom s))) (Fin (2 / 100))
         \<and> jsGt newZoom (Fin (2 / 10)) \<and> jsLt newZoom (Fin 5)
      then s\<lparr>zoom := newZoom\<rparr>
      else s)"

datatype gesture_state = UNDETERMINED | FAILED | BEGAN | CANCELLED | ACTIVE | ENDED

definition Model_handleStateChange :: "model \<Rightarrow> gesture_state \<Rightarrow> model" where
  "Model_handleStateChange s oldState = (if oldState = ACTIVE then s\<lparr>baseZoom := zoom s\<rparr> else s)"

text \<open>The \<^verbatim>\<open>onPress\<close> of the Reset button.\<close>

definition Model_reset :: "model \<Rightarrow> model" where
  "Model_reset s = s\<lparr>rotation := Euler (Fin 0) (Fin 0), zoom := Fin 1, baseZoom := Fin 1\<rparr>"

text \<open>
  Everything that can happen to the view: the gestures, the button, the slider
  (\<^verbatim>\<open>setIndex\<close>) and the colour effect. An event whose handler throws leaves the
  state as it was.
\<close>

datatype model_event =
    ResponderMove touch_event
  | PinchGesture jsnum
  | PinchStateChange gesture_state
  | ResetPress
  | SliderChange nat
  | ColourEffect

fun Model_step :: "env \<Rightarrow> screen \<Rightarrow> model \<Rightarrow> model_event \<Rightarrow> model" where
  "Model_step E P s (ResponderMove ev) =
     (case Model_handleResponderMove E s ev of Inl _ \<Rightarrow> s | Inr s' \<Rightarrow> s')"
| "Model_step E P s (PinchGesture sc) = Model_handlePinchGestureEvent s sc"
| "Model_step E P s (PinchStateChange st) = Model_handleStateChange s st"
| "Model_step E P s ResetPress = Model_reset s"
| "Model_step E P s (SliderChange v) = s\<lparr>index := v\<rparr>"
| "Model_step E P s ColourEffect =
     (case colourEffect E P s of Inl _ \<Rightarrow> s | Inr s' \<Rightarrow> s')"

definition Model_run :: "env \<Rightarrow> screen \<Rightarrow> model \<Rightarrow> model_event list \<Rightarrow> model" where
  "Model_run E P s evs = foldl (Model_step E P) s evs"

section \<open>The time-series chart (Chart.js)\<close>

text \<open>
  \<^verbatim>\<open>Chart\<close> receives \<open>data\<close> and \<open>chartOptions\<close> of the screen as its props. Its
  gesture handlers are attached only while at least one dataset is shown; the model
  lets them fire in every state.
\<close>

record chart =
  width :: jsnum
  timestamps :: "jsnum list"
  minX :: jsnum
  maxX :: jsnum
  baseRange :: "jsnum \<times> jsnum"
  minInterval :: jsnum

definition Chart_init :: chart where
  "Chart_init =
    \<lparr> width = Fin 0, timestamps = [], minX = Fin 0, maxX = Fin 0,
      baseRange = (Fin 0, Fin 0), minInterval = Fin 0 \<rparr>"

text \<open>\<^verbatim>\<open>sample.timestamp\<close>, as the number the chart computes with.\<close>

definition timestampOf :: "env \<Rightarrow> sample \<Rightarrow> jsnum" where
  "timestampOf E smp =
     toNumber E (case map_of smp ''timestamp'' of None \<Rightarrow> Undefined | Some v \<Rightarrow> v)"

definition Chart_dataEffect :: "env \<Rightarrow> screen \<Rightarrow> chart \<Rightarrow> chart" where
  "Chart_dataEffect E P s = s\<lparr>timestamps := map (timestampOf E) (data P)\<rparr>"

text \<open>
  The gaps between consecutive timestamps: the source maps every index to its gap,
  \<^verbatim>\<open>null\<close> at index 0, and slices the first entry away.
\<close>

definition intervals :: "jsnum list \<Rightarrow> jsnum list" where
  "intervals ts =
     drop 1 (map (\<lambda>i. if i \<noteq> 0 then jsSub (ts ! i) (ts ! (i - 1)) else Fin 0) [0..<length ts])"

definition firstTimestamp :: "chart \<Rightarrow> jsnum" where
  "firstTimestamp s = numAt (timestamps s) 0"

definition lastTimestamp :: "chart \<Rightarrow> jsnum" where
  "lastTimestamp s = numAt (timestamps s) (int (length (timestamps s)) - 1)"

definition Chart_timestampsEffect :: "chart \<Rightarrow> chart" where
  "Chart_timestampsEffect s =
     s\<lparr> minX := firstTimestamp s,
        maxX := lastTimestamp s,
        baseRange := (firstTimestamp s, lastTimestamp s),
        minInterval := mathMin (intervals (timestamps s)) \<rparr>"

definition panChange :: "chart \<Rightarrow> touch \<Rightarrow> jsnum" where
  "panChange s touchBank =
     jsMul (jsDiv (jsSub (currentPageX touchBank) (previousPageX touchBank)) (width s))
           (jsSub (snd (baseRange s)) (fst (baseRange s)))"

definition Chart_handleResponderMove :: "env \<Rightarrow> chart \<Rightarrow> touch_event \<Rightarrow> error + chart" where
  "Chart_handleResponderMove E s event =
     (case globalPlatform E of
        None \<Rightarrow> Inl ReferenceError
      | Some osName \<Rightarrow>
          (case touchAt event (platformSelect osName) of
             Inl e \<Rightarrow> Inl e
           | Inr touchBank \<Rightarrow>
               (let change = panChange s touchBank;
                    newMinX = jsSub (minX s) change;
                    newMaxX = jsSub (maxX s) change
                in if jsGe newMinX (firstTimestamp s) \<and> jsLe newMaxX (lastTimestamp s)
                   then Inr (s\<lparr>minX := newMinX, maxX := newMaxX\<rparr>)
                   else Inr s)))"

text \<open>The locals of the pinch handler, for an event with the given scale and focal x.\<close>

definition oldRange :: "chart \<Rightarrow> jsnum" where
  "oldRange s = jsSub (snd (baseRange s)) (fst (baseRange s))"

definition pinchChange :: "chart \<Rightarrow> jsnum \<Rightarrow> jsnum" where
  "pinchChange s eventScale =
     jsSub (jsMul (oldRange s) (jsDiv (Fin 1) eventScale)) (oldRange s)"

definition focalPoint :: "chart \<Rightarrow> jsnum \<Rightarrow> jsnum" where
  "focalPoint s focalX = jsDiv focalX (width s)"

definition pinchNewMinX :: "chart \<Rightarrow> jsnum \<Rightarrow> jsnum \<Rightarrow> jsnum" where
  "pinchNewMinX s eventScale focalX =
     jsSub (minX s) (jsMul (pinchChange s eventScale) (focalPoint s focalX))"

definition pinchNewMaxX :: "chart \<Rightarrow> jsnum \<Rightarrow> jsnum \<Rightarrow> jsnum" where
  "pinchNewMaxX s eventScale focalX =
     jsAdd (maxX s) (jsMul (pinchChange s eventScale) (jsSub (Fin 1) (focalPoint s focalX)))"

definition pinchRejected :: "chart \<Rightarrow> jsnum \<Rightarrow> jsnum \<Rightarrow> bool" where
  "pinchRejected s eventScale focalX =
     (jsLt (jsSub (pinchNewMaxX s eventScale focalX) (pinchNewMinX s eventScale focalX))
           (jsMul (Fin 2) (minInterval s))
      \<or> jsLt (jsAbs (pinchChange s eventScale)) (jsDiv (oldRange s) (Fin 100)))"

definition Chart_handlePinchGestureEvent :: "chart \<Rightarrow> jsnum \<Rightarrow> jsnum \<Rightarrow> chart" where
  "Chart_handlePinchGestureEvent s eventScale focalX =
     (let newMinX = pinchNewMinX s eventScale focalX;
          newMaxX = pinchNewMaxX s eventScale focalX
      in if pinchRejected s eventScale focalX then s
         else (let s1 = (if jsGe newMinX (firstTimestamp s) then s\<lparr>minX := newMinX\<rparr> else s)
               in if jsLe newMaxX (lastTimestamp s) then s1\<lparr>maxX := newMaxX\<rparr> else s1))"

definition Chart_handleStateChange :: "chart \<Rightarrow> gesture_state \<Rightarrow> chart" where
  "Chart_handleStateChange s oldState =
     (if oldState = ACTIVE then s\<lparr>baseRange := (minX s, maxX s)\<rparr> else s)"

text \<open>
  The gestures and the layout callback (\<^verbatim>\<open>setWidth\<close>) on a chart whose data stays the
  same. A handler that throws leaves the state as it was.
\<close>

datatype chart_event =
    Pan touch_event
  | Pinch jsnum jsnum
  | PinchEnd gesture_state
  | Layout jsnum

fun Chart_step :: "env \<Rightarrow> chart \<Rightarrow> chart_event \<Rightarrow> chart" where
  "Chart_step E s (Pan ev) =
     (case Chart_handleResponderMove E s ev of Inl _ \<Rightarrow> s | Inr s' \<Rightarrow> s')"
| "Chart_step E s (Pinch sc fx) = Chart_handlePinchGestureEvent s sc fx"
| "Chart_step E s (PinchEnd st) = Chart_handleStateChange s st"
| "Chart_step E s (Layout w) = s\<lparr>width := w\<rparr>"

definition Chart_run :: "env \<Rightarrow> chart \<Rightarrow> chart_event list \<Rightarrow> chart" where
  "Chart_run E s evs = foldl (Chart_step E) s evs"

text \<open>The visible window lies inside the data, in the comparisons the handlers use.\<close>

definition windowInside :: "chart \<Rightarrow> bool" where
  "windowInside s = (jsGe (minX s) (firstTimestamp s) \<and> jsLe (maxX s) (lastTimestamp s))"

section \<open>The screen container (Screen.js)\<close>

text \<open>
  The sensor list both \<^verbatim>\<open>refresh\<close> and \<^verbatim>\<open>setSensorNames\<close> build from the sensor
  names. \<^verbatim>\<open>chartColours[index % chartColours.length]\<close> is \<^verbatim>\<open>undefined\<close> on an empty
  table.
\<close>

definition colourAt :: "string list \<Rightarrow> nat \<Rightarrow> string option" where
  "colourAt cs i = (if cs = [] then None else Some (cs ! (i mod length cs)))"

definition mapSensors :: "env \<Rightarrow> string list \<Rightarrow> sensor list" where
  "mapSensors E sensorNames =
     map (\<lambda>i. \<lparr> name = sensorNames ! i, isSelected = (i < 3),
                colour = colourAt (chartColours E) i \<rparr>)
         [0..<length sensorNames]"

definition liveStatusEffect :: "env \<Rightarrow> props \<Rightarrow> string list \<Rightarrow> screen \<Rightarrow> screen" where
  "liveStatusEffect E pr packages s =
     (let isLive = (packageServerName pr \<in> set packages);
          s1 = s\<lparr>live := isLive\<rparr>;
          s2 = (if liveMode s
                then (let s' = s1\<lparr> modelOptions := (modelOptions s)
                                     \<lparr> colourMode := 1,
                                       scale := modelColourScale E (liveDataType (screenState s)) \<rparr>,
                                  chartOptions := (chartOptions s)\<lparr>showTemperature := False\<rparr> \<rparr>
                      in if liveDataType (screenState s) = ''raw'' then s'\<lparr>mode := 1\<rparr> else s')
                else s1)
      in if \<not> isLive then s2\<lparr>liveMode := False\<rparr> else s2)"

definition setSensorNames :: "env \<Rightarrow> props \<Rightarrow> screen \<Rightarrow> screen" where
  "setSensorNames E pr s =
     (case fetchSensorNames E (packageServerName pr) (liveDataType (screenState s)) of
        Inr sensorNames \<Rightarrow>
          s\<lparr>chartOptions := (chartOptions s)
               \<lparr> showTemperature := False, sensors := mapSensors E sensorNames \<rparr>\<rparr>
      | Inl err \<Rightarrow>
          s\<lparr> alerts := alerts s @ [(''Live data error'', ''Could not fetch sensor names'')],
             liveMode := False \<rparr>)"

definition wsUrl :: "screen \<Rightarrow> string" where
  "wsUrl s = ''ws://129.169.72.175/fbg/live-data/?data-type='' @ liveDataType (screenState s)"

text \<open>
  The live effect: in live mode it opens a socket and asks for the sensor names; its
  cleanup closes the socket and empties \<open>liveData\<close>. The cleanup exists exactly when the
  effect opened a socket, and runs before the effect runs again.
\<close>

definition wsEffect :: "env \<Rightarrow> props \<Rightarrow> screen \<Rightarrow> screen" where
  "wsEffect E pr s =
     (if liveMode s then setSensorNames E pr (s\<lparr>socket := Some (wsUrl s)\<rparr>) else s)"

definition wsCleanup :: "screen \<Rightarrow> screen" where
  "wsCleanup s = s\<lparr>socket := None, liveData := []\<rparr>"

definition wsEffectRerun :: "env \<Rightarrow> props \<Rightarrow> screen \<Rightarrow> screen" where
  "wsEffectRerun E pr s =
     wsEffect E pr (case socket s of None \<Rightarrow> s | Some _ \<Rightarrow> wsCleanup s)"

definition onmessage :: "env \<Rightarrow> props \<Rightarrow> screen \<Rightarrow> string \<Rightarrow> error + screen" where
  "onmessage E pr s message =
     (case jsonParse E message of
        None \<Rightarrow> Inl SyntaxError
      | Some parsed \<Rightarrow>
          (case getProp parsed (packageServerName pr) of
             Inl e \<Rightarrow> Inl e
           | Inr newSample \<Rightarrow>
               Inr (s\<lparr>liveData :=
                      (if 30 < length (liveData s) then [newSample]
                       else liveData s @ [newSample])\<rparr>)))"

text \<open>Assignment to a property: in place when the key exists, at the end otherwise.\<close>

fun setProp :: "string \<Rightarrow> jsval \<Rightarrow> sample \<Rightarrow> sample" where
  "setProp k v [] = [(k, v)]"
| "setProp k v ((k', v') # rest) =
     (if k' = k then (k, v) # rest else (k', v') # setProp k v rest)"

definition parseTimestamp :: "env \<Rightarrow> sample \<Rightarrow> sample" where
  "parseTimestamp E smp =
     setProp ''timestamp''
       (Num (dateParse E (case map_of smp ''timestamp'' of None \<Rightarrow> Undefined | Some v \<Rightarrow> v)))
       smp"

text \<open>\<^verbatim>\<open>const { timestamp, ...readings } = sample\<close>\<close>

definition readings :: "sample \<Rightarrow> sample" where
  "readings smp = filter (\<lambda>kv. fst kv \<noteq> ''timestamp'') smp"

definition finish :: "screen \<Rightarrow> screen" where
  "finish s = s\<lparr>isLoading := False\<rparr>"

definition refreshAlert :: "string \<Rightarrow> screen \<Rightarrow> screen" where
  "refreshAlert err s = s\<lparr>alerts := alerts s @ [(''Refresh error'', err)]\<rparr>"

text \<open>
  \<^verbatim>\<open>refresh\<close>, with the state it closed over as \<open>s\<close>. The setters are called one by
  one, so a request that fails half-way leaves the earlier ones done; the \<^verbatim>\<open>catch\<close>
  shows the alert and the last statement clears \<open>isLoading\<close>.
\<close>

definition refresh :: "env \<Rightarrow> props \<Rightarrow> screen \<Rightarrow> string \<Rightarrow> string \<Rightarrow> string \<Rightarrow> string \<Rightarrow> screen" where
  "refresh E pr s dType avWindow startT endT =
     (let s0 = s\<lparr>isLoading := True\<rparr> in
      case fetchData E (packageURL pr) dType avWindow startT endT of
        Inl err \<Rightarrow> finish (refreshAlert err s0)
      | Inr fetched \<Rightarrow>
          if fetched = [] then finish (refreshAlert ''No data available for this time period'' s0)
          else
            (let parsed = map (parseTimestamp E) fetched;
                 s1 = s0\<lparr>data := parsed\<rparr>;
                 allReadings = concat (map (\<lambda>smp. map snd (readings smp)) parsed);
                 range = [mathMin (map (toNumber E) allReadings),
                          mathMax (map (toNumber E) allReadings)];
                 s2 = s1\<lparr>dataRange := range\<rparr>;
                 s3 = (if dType = ''raw'' then s2\<lparr>mode := 1\<rparr> else s2);
                 s4 = s3\<lparr>screenState := (screenState s)
                          \<lparr> dataType := dType, averagingWindow := avWindow,
                            startTime := startT, endTime := endT \<rparr>\<rparr>;
                 sensorNames = map fst (readings (hd parsed))
             in case fetchTemperatureData E startT endT of
                  Inl err \<Rightarrow> finish (refreshAlert err s4)
                | Inr temperatures \<Rightarrow>
                    (let s5 = s4\<lparr>chartOptions := (chartOptions s)
                                  \<lparr> sensors := mapSensors E sensorNames,
                                    temperatureData := temperatures \<rparr>\<rparr>;
                         s6 = s5\<lparr>modelOptions := (modelOptions s)
                                  \<lparr> scale := (if colourMode (modelOptions s) \<noteq> 0
                                               then modelColourScale E dType
                                               else Some range) \<rparr>\<rparr>
                     in finish s6)))"

text \<open>
  What can happen to the container: a new live status, the live effect running again,
  a socket message (heard only while a socket is open), a refresh, and the menu using
  the \<^verbatim>\<open>setLiveMode\<close> it is handed.
\<close>

datatype screen_event =
    LiveStatus "string list"
  | LiveEffect
  | Message string
  | Refresh string string string string
  | SetLiveMode bool

fun Screen_step :: "env \<Rightarrow> props \<Rightarrow> screen \<Rightarrow> screen_event \<Rightarrow> screen" where
  "Screen_step E pr s (LiveStatus packages) = liveStatusEffect E pr packages s"
| "Screen_step E pr s LiveEffect = wsEffectRerun E pr s"
| "Screen_step E pr s (Message m) =
     (case socket s of
        None \<Rightarrow> s
      | Some _ \<Rightarrow> (case onmessage E pr s m of Inl _ \<Rightarrow> s | Inr s' \<Rightarrow> s'))"
| "Screen_step E pr s (Refresh dType avWindow startT endT) = refresh E pr s dType avWindow startT endT"
| "Screen_step E pr s (SetLiveMode b) = s\<lparr>liveMode := b\<rparr>"

definition Screen_run :: "env \<Rightarrow> props \<Rightarrow> screen \<Rightarrow> screen_event list \<Rightarrow> screen" where
  "Screen_run E pr s evs = foldl (Screen_step E pr) s evs"

section \<open>Invariants and concrete inputs\<close>

text \<open>The zoom of the 3D view is a finite number strictly between 0.2 and 5.\<close>

definition zoomBounded :: "model \<Rightarrow> bool" where
  "zoomBounded s = (case zoom s of Fin z \<Rightarrow> 2 / 10 < z \<and> z < 5 | _ \<Rightarrow> False)"

text \<open>The message \<^verbatim>\<open>{"pkg":{"s1":1}}\<close> and the sample it carries for the package \<^verbatim>\<open>pkg\<close>.\<close>

definition message_demo :: string where
  "message_demo =
     ''{'' @ [CHR 0x22] @ ''pkg'' @ [CHR 0x22] @ '':{'' @ [CHR 0x22] @ ''s1'' @ [CHR 0x22] @ '':1}}''"

definition sample_demo :: jsval where
  "sample_demo = Obj [(''s1'', Num (Fin 1))]"

definition props_demo :: props where
  "props_demo = \<lparr> packageServerName = ''pkg'', packageURL = ''http://host/pkg'' \<rparr>"

text \<open>
  An environment to run the components in: an Android host that also binds
  \<^verbatim>\<open>Platform\<close> globally, two chart colours, one colour scale, a parser that knows the
  one message, every request refused.
\<close>

definition env_demo :: env where
  "env_demo =
    \<lparr> os = ''android'', globalPlatform = Some ''android'',
      coerce = (\<lambda>v. NaN),
      numToString = (\<lambda>n. if n = Fin 135 then ''135'' else ''?''),
      dateParse = (\<lambda>v. case v of Str s \<Rightarrow> Fin (real (length s)) | _ \<Rightarrow> NaN),
      jsonParse = (\<lambda>m. if m = message_demo then Some (Obj [(''pkg'', sample_demo)]) else None),
      chartColours = [''red'', ''green''],
      modelColourScale = (\<lambda>t. if t = ''str'' then Some [Fin (- 200), Fin 200] else None),
      fetchData = (\<lambda>u t w a b. Inl ''offline''),
      fetchTemperatureData = (\<lambda>a b. Inl ''offline''),
      fetchSensorNames = (\<lambda>p t. Inl ''offline'') \<rparr>"

text \<open>
  The same with a data request that answers one sample of two sensors, and then with
  every request answered.
\<close>

definition env_half :: env where
  "env_half =
     env_demo\<lparr>fetchData := (\<lambda>u t w a b.
        Inr [[(''timestamp'', Str ''2020-01-01''), (''s1'', Num (Fin 5)), (''s2'', Num (Fin 7))]])\<rparr>"

definition env_ok :: env where
  "env_ok =
     env_half\<lparr> fetchTemperatureData := (\<lambda>a b. Inr (Arr [])),
                fetchSensorNames := (\<lambda>p t. Inr [''s1'', ''s2'', ''s3'', ''s4'']) \<rparr>"

text \<open>A chart laid out 100 wide over the timestamps 0, 1 and 10.\<close>

definition chart_demo :: chart where
  "chart_demo =
     Chart_timestampsEffect (Chart_init\<lparr>width := Fin 100, timestamps := [Fin 0, Fin 1, Fin 10]\<rparr>)"

text \<open>The same chart after a zoom to the window from 2 to 5, and a touch that moved 10 to the right.\<close>

definition chart_zoomed :: chart where
  "chart_zoomed = chart_demo\<lparr>minX := Fin 2, maxX := Fin 5\<rparr>"

definition touch_demo :: touch where
  "touch_demo = \<lparr>currentPageX = Fin 110, previousPageX = Fin 100,
                  currentPageY = Fin 0, previousPageY = Fin 0\<rparr>"

text \<open>
  A chart over fewer than two timestamps: no gap between timestamps, and a window and a
  base range that are one point.
\<close>

definition singlePoint :: "chart \<Rightarrow> bool" where
  "singlePoint s = (minInterval s = PInf \<and> maxX s = minX s \<and> baseRange s = (minX s, minX s))"

text \<open>The container with one sample loaded, and a drag of 200 to the right and 100 up.\<close>

definition screen_one :: screen where
  "screen_one = Screen_init\<lparr>data := [[(''timestamp'', Num (Fin 1000)), (''s1'', Num (Fin 0))]]\<rparr>"

definition touch_drag :: touch where
  "touch_drag = \<lparr>currentPageX = Fin 300, previousPageX = Fin 100,
                  currentPageY = Fin 50, previousPageY = Fin 150\<rparr>"

text \<open>The container in live mode with 31 samples received.\<close>

definition screen_full :: screen where
  "screen_full =
     Screen_init\<lparr> live := True, liveMode := True, socket := Some (wsUrl Screen_init),
                  liveData := replicate 31 sample_demo \<rparr>"

section \<open>Properties of the 3D model view\<close>

lemma jsLt_irrefl [simp]: "\<not> jsLt x x"
  by (cases x) auto

lemma hue_Fin: "a \<noteq> b \<Longrightarrow> hue (Fin x) (Fin a) (Fin b) = Fin ((1 - (x - a) / (b - a)) * 270)"
  by (simp add: hue_def jsSub_def)

lemma mapColours_shape:
  "mapColours E P kvs = Inr cs \<Longrightarrow>
     map fst cs = map fst kvs \<and>
     (\<forall>i < length kvs. mapColour E P (snd (kvs ! i)) = Inr (snd (cs ! i)))"
proof (induction kvs arbitrary: cs)
  case Nil
  then show ?case by simp
next
  case (Cons kv kvs)
  obtain k v where kv: "kv = (k, v)" by (cases kv)
  from Cons.prems kv obtain c cs' where
    c: "mapColour E P v = Inr c" and cs': "mapColours E P kvs = Inr cs'" and cs: "cs = (k, c) # cs'"
    by (auto split: sum.splits)
  from Cons.IH[OF cs'] have ih: "map fst cs' = map fst kvs"
    "\<forall>i < length kvs. mapColour E P (snd (kvs ! i)) = Inr (snd (cs' ! i))" by auto
  show ?case
  proof (intro conjI allI impI)
    show "map fst cs = map fst (kv # kvs)" using ih(1) cs kv by simp
  next
    fix i assume "i < length (kv # kvs)"
    then show "mapColour E P (snd ((kv # kvs) ! i)) = Inr (snd (cs ! i))"
      using ih(2) c cs kv by (cases i) auto
  qed
qed

text \<open>
  Claim C1. With a colour scale \<open>[mn, mx]\<close> in the model options, \<open>mapColour\<close> returns
  the text \<^verbatim>\<open>hsl(h,100%,50%)\<close> with \<open>h = (1 - (v - mn) / (mx - mn)) * 270\<close> when
  \<open>mn < v < mx\<close>, and \<^verbatim>\<open>grey\<close> for every other value, \<open>v = mn\<close>, \<open>v = mx\<close> and NaN
  among them. The colour effect gives every entry of the current sample the colour
  \<open>mapColour\<close> returns for its value.
\<close>

theorem mapColour_hsl_or_grey:
  assumes sc: "scale (modelOptions P) = Some [mn, mx]"
  shows "mapColour E P v =
           Inr (if jsLt mn (toNumber E v) \<and> jsLt (toNumber E v) mx
                then ''hsl('' @ numToString E (hue (toNumber E v) mn mx) @ '',100%,50%)''
                else ''grey'')
       \<and> (mn = Fin a \<and> mx = Fin b \<and> toNumber E v = Fin x \<and> a < x \<and> x < b \<longrightarrow>
            mapColour E P v =
              Inr (''hsl('' @ numToString E (Fin ((1 - (x - a) / (b - a)) * 270)) @ '',100%,50%)''))
       \<and> (toNumber E v = mn \<or> toNumber E v = mx \<or> toNumber E v = NaN \<longrightarrow>
            mapColour E P v = Inr ''grey'')
       \<and> (colourEffect E P s = Inr s' \<and> truthy (currentSample P s) \<longrightarrow>
            map fst (sensorColours s') = map fst (entries (currentSample P s)) \<and>
            (\<forall>i < length (entries (currentSample P s)).
               mapColour E P (snd (entries (currentSample P s) ! i)) = Inr (snd (sensorColours s' ! i))))"
proof -
  have gen: "mapColour E P v =
           Inr (if jsLt mn (toNumber E v) \<and> jsLt (toNumber E v) mx
                then ''hsl('' @ numToString E (hue (toNumber E v) mn mx) @ '',100%,50%)''
                else ''grey'')"
    using sc by (simp add: mapColour_def numAt_def jsGt_def Let_def)
  have fin: "mn = Fin a \<and> mx = Fin b \<and> toNumber E v = Fin x \<and> a < x \<and> x < b \<longrightarrow>
            mapColour E P v =
              Inr (''hsl('' @ numToString E (Fin ((1 - (x - a) / (b - a)) * 270)) @ '',100%,50%)'')"
    using gen by (auto simp: hue_Fin)
  have edge: "toNumber E v = mn \<or> toNumber E v = mx \<or> toNumber E v = NaN \<longrightarrow>
            mapColour E P v = Inr ''grey''"
    using gen by auto
  have eff: "colourEffect E P s = Inr s' \<and> truthy (currentSample P s) \<longrightarrow>
            map fst (sensorColours s') = map fst (entries (currentSample P s)) \<and>
            (\<forall>i < length (entries (currentSample P s)).
               mapColour E P (snd (entries (currentSample P s) ! i)) = Inr (snd (sensorColours s' ! i)))"
    by (auto simp: colourEffect_def Let_def split: if_splits sum.splits dest!: mapColours_shape)
  show ?thesis using gen fin edge eff by blast
qed

theorem mapColour_hsl_or_grey_witness:
  "scale (modelOptions screen_one) = Some [Fin (- 200), Fin 200]
   \<and> mapColour env_demo screen_one (Num (Fin 0)) = Inr ''hsl(135,100%,50%)''
   \<and> mapColour env_demo screen_one (Num (Fin 200)) = Inr ''grey''
   \<and> mapColour env_demo screen_one (Num (Fin (- 200))) = Inr ''grey''
   \<and> mapColour env_demo screen_one (Num NaN) = Inr ''grey''
   \<and> truthy (currentSample screen_one Model_init)
   \<and> colourEffect env_demo screen_one Model_init
       = Inr (Model_init\<lparr>sensorColours := [(''timestamp'', ''grey''), (''s1'', ''hsl(135,100%,50%)'')]\<rparr>)"
proof -
  have sc: "scale (modelOptions screen_one) = Some [Fin (- 200), Fin 200]"
    by (simp add: screen_one_def Screen_init_def)
  have cs: "currentSample screen_one Model_init = Obj [(''timestamp'', Num (Fin 1000)), (''s1'', Num (Fin 0))]"
    by (simp add: currentSample_def screen_one_def Screen_init_def Model_init_def)
  have h: "hue (Fin 0) (Fin (- 200)) (Fin 200) = Fin 135"
    by (simp add: hue_def jsSub_def)
  have n: "numToString env_demo (Fin 135) = ''135''" by (simp add: env_demo_def)
  have m0: "mapColour env_demo screen_one (Num (Fin 0)) = Inr ''hsl(135,100%,50%)''"
    using mapColour_hsl_or_grey [OF sc, of env_demo "Num (Fin 0)" "- 200" 200 0] by (simp add: h n)
  have m1: "mapColour env_demo screen_one (Num (Fin 1000)) = Inr ''grey''"
    using mapColour_hsl_or_grey [OF sc, of env_demo "Num (Fin 1000)"] by simp
  have eff: "colourEffect env_demo screen_one Model_init
       = Inr (Model_init\<lparr>sensorColours := [(''timestamp'', ''grey''), (''s1'', ''hsl(135,100%,50%)'')]\<rparr>)"
    by (simp add: colourEffect_def cs m0 m1)
  show ?thesis
    using mapColour_hsl_or_grey [OF sc, of env_demo "Num (Fin 200)"]
          mapColour_hsl_or_grey [OF sc, of env_demo "Num (Fin (- 200))"]
          mapColour_hsl_or_grey [OF sc, of env_demo "Num NaN" _ _ _ Model_init
             "Model_init\<lparr>sensorColours := [(''timestamp'', ''grey''), (''s1'', ''hsl(135,100%,50%)'')]\<rparr>"]
          sc m0 eff cs
    by simp
qed

lemma between_is_Fin:
  "jsGt n (Fin l) \<Longrightarrow> jsLt n (Fin u) \<Longrightarrow> \<exists>z. n = Fin z \<and> l < z \<and> z < u"
  by (cases n) (auto simp: jsGt_def)

lemma zoomBounded_pinch: "zoomBounded s \<Longrightarrow> zoomBounded (Model_handlePinchGestureEvent s sc)"
  by (auto simp: Model_handlePinchGestureEvent_def zoomBounded_def Let_def dest: between_is_Fin)

lemma zoomBounded_step: "zoomBounded s \<Longrightarrow> zoomBounded (Model_step E P s ev)"
proof (cases ev)
  case (ResponderMove x1)
  assume "zoomBounded s"
  then show ?thesis using ResponderMove
    by (auto simp: Model_handleResponderMove_def zoomBounded_def Let_def split: sum.splits)
next
  case (PinchGesture x2)
  assume "zoomBounded s"
  then show ?thesis using PinchGesture by (simp add: zoomBounded_pinch)
next
  case (PinchStateChange x3)
  assume "zoomBounded s"
  then show ?thesis using PinchStateChange
    by (simp add: Model_handleStateChange_def zoomBounded_def)
next
  case ResetPress
  then show ?thesis by (simp add: Model_reset_def zoomBounded_def)
next
  case (SliderChange x5)
  assume "zoomBounded s"
  then show ?thesis using SliderChange by (simp add: zoomBounded_def)
next
  case ColourEffect
  assume "zoomBounded s"
  then show ?thesis using ColourEffect
    by (auto simp: colourEffect_def zoomBounded_def Let_def split: sum.splits if_splits)
qed

lemma zoomBounded_run: "zoomBounded s \<Longrightarrow> zoomBounded (Model_run E P s evs)"
  unfolding Model_run_def
  by (induction evs arbitrary: s) (auto simp: zoomBounded_step)

text \<open>
  Claim C4. From the initial state, after any sequence of events of the 3D view the
  zoom is a finite number strictly between 0.2 and 5. A pinch event sets the zoom to
  \<open>baseZoom * scale ** 0.5\<close> exactly when that value is greater than 0.2, less than 5
  and more than 0.02 away from the current zoom, and changes nothing otherwise.
\<close>

theorem Model_zoom_stays_bounded:
  "(\<exists>z. zoom (Model_run E P Model_init evs) = Fin z \<and> 2 / 10 < z \<and> z < 5)
   \<and> Model_handlePinchGestureEvent s sc =
       (if jsGt (jsMul (baseZoom s) (jsPowHalf sc)) (Fin (2 / 10))
           \<and> jsLt (jsMul (baseZoom s) (jsPowHalf sc)) (Fin 5)
           \<and> jsGt (jsAbs (jsSub (jsMul (baseZoom s) (jsPowHalf sc)) (zoom s))) (Fin (2 / 100))
        then s\<lparr>zoom := jsMul (baseZoom s) (jsPowHalf sc)\<rparr> else s)
   \<and> (baseZoom s = Fin b \<and> zoom s = Fin z0 \<and> 0 \<le> c \<longrightarrow>
        zoom (Model_handlePinchGestureEvent s (Fin c)) =
          (if 2 / 10 < b * sqrt c \<and> b * sqrt c < 5 \<and> 2 / 100 < \<bar>b * sqrt c - z0\<bar>
           then Fin (b * sqrt c) else Fin z0))"
proof -
  have "zoomBounded Model_init" by (simp add: zoomBounded_def Model_init_def)
  then have "zoomBounded (Model_run E P Model_init evs)" by (rule zoomBounded_run)
  then have inv: "\<exists>z. zoom (Model_run E P Model_init evs) = Fin z \<and> 2 / 10 < z \<and> z < 5"
    by (auto simp: zoomBounded_def split: jsnum.splits)
  have ev: "Model_handlePinchGestureEvent s sc =
       (if jsGt (jsMul (baseZoom s) (jsPowHalf sc)) (Fin (2 / 10))
           \<and> jsLt (jsMul (baseZoom s) (jsPowHalf sc)) (Fin 5)
           \<and> jsGt (jsAbs (jsSub (jsMul (baseZoom s) (jsPowHalf sc)) (zoom s))) (Fin (2 / 100))
        then s\<lparr>zoom := jsMul (baseZoom s) (jsPowHalf sc)\<rparr> else s)"
    by (auto simp: Model_handlePinchGestureEvent_def Let_def)
  have fin: "baseZoom s = Fin b \<and> zoom s = Fin z0 \<and> 0 \<le> c \<longrightarrow>
        zoom (Model_handlePinchGestureEvent s (Fin c)) =
          (if 2 / 10 < b * sqrt c \<and> b * sqrt c < 5 \<and> 2 / 100 < \<bar>b * sqrt c - z0\<bar>
           then Fin (b * sqrt c) else Fin z0)"
    by (auto simp: Model_handlePinchGestureEvent_def Let_def jsGt_def jsSub_def)
  show ?thesis using inv ev fin by blast
qed

theorem Model_zoom_stays_bounded_witness:
  "zoom (Model_run env_demo Screen_init Model_init
      [PinchGesture (Fin 4), PinchStateChange ACTIVE, PinchGesture (Fin 4), PinchGesture (Fin 9)]) = Fin 4
   \<and> zoom (Model_handlePinchGestureEvent (Model_init\<lparr>baseZoom := Fin 4, zoom := Fin 4\<rparr>) (Fin 4)) = Fin 4"
  using Model_zoom_stays_bounded [of env_demo Screen_init
      "[PinchGesture (Fin 4), PinchStateChange ACTIVE, PinchGesture (Fin 4), PinchGesture (Fin 9)]"
      "Model_init\<lparr>baseZoom := Fin 4, zoom := Fin 4\<rparr>" "Fin 4" 4 4 4]
  by (simp add: Model_run_def Model_handlePinchGestureEvent_def Model_handleStateChange_def
        Model_init_def jsGt_def jsSub_def Let_def)

lemma ez_step: "ez (rotation s) = Fin 0 \<Longrightarrow> ez (rotation (Model_step E P s ev)) = Fin 0"
  by (cases ev)
     (auto simp: Model_handleResponderMove_def Model_handlePinchGestureEvent_def
        Model_handleStateChange_def Model_reset_def colourEffect_def Euler_def Let_def
        split: sum.splits if_splits)

lemma ez_run: "ez (rotation s) = Fin 0 \<Longrightarrow> ez (rotation (Model_run E P s evs)) = Fin 0"
  unfolding Model_run_def
  by (induction evs arbitrary: s) (auto simp: ez_step)

lemma drag_unfold:
  "touchAt ev (platformSelect (os E)) = Inr t \<Longrightarrow>
   Model_handleResponderMove E s ev =
     Inr (s\<lparr>rotation := Euler
           (jsAdd (ex (rotation s)) (jsDiv (jsSub (currentPageY t) (previousPageY t)) (Fin 200)))
           (jsAdd (ey (rotation s)) (jsDiv (jsSub (currentPageX t) (previousPageX t)) (Fin 200)))\<rparr>)"
  by (simp add: Model_handleResponderMove_def Let_def)

lemma drag_cases:
  "Model_handleResponderMove E s ev = Inr s' \<Longrightarrow> \<exists>r. s' = s\<lparr>rotation := r\<rparr> \<and> ez r = Fin 0"
  by (auto simp: Model_handleResponderMove_def Let_def Euler_def split: sum.splits)


lemma drag_rotation: "touchAt ev (platformSelect (os E)) = Inr t \<longrightarrow>
      Model_handleResponderMove E s ev =
        Inr (s\<lparr>rotation := Euler
              (jsAdd (ex (rotation s)) (jsDiv (jsSub (currentPageY t) (previousPageY t)) (Fin 200)))
              (jsAdd (ey (rotation s)) (jsDiv (jsSub (currentPageX t) (previousPageX t)) (Fin 200)))\<rparr>)"
  by (simp add: drag_unfold)

lemma drag_rotation_finite: "touchAt ev (platformSelect (os E)) = Inr t \<and> rotation s = Euler (Fin x) (Fin y)
        \<and> currentPageX t = Fin cx \<and> previousPageX t = Fin px
        \<and> currentPageY t = Fin cy \<and> previousPageY t = Fin py \<longrightarrow>
      Model_handleResponderMove E s ev =
        Inr (s\<lparr>rotation := Euler (Fin (x + (cy - py) / 200)) (Fin (y + (cx - px) / 200))\<rparr>)"
  by (simp add: drag_unfold Euler_def jsSub_def)

lemma drag_keeps_rest: "Model_handleResponderMove E s ev = Inr s' \<longrightarrow>
        zoom s' = zoom s \<and> baseZoom s' = baseZoom s \<and> index s' = index s
        \<and> sensorColours s' = sensorColours s \<and> ez (rotation s') = Fin 0"
  by (auto dest!: drag_cases)

lemma drag_angles: "touchAt ev (platformSelect (os E)) = Inr t \<and> Model_handleResponderMove E s ev = Inr s' \<longrightarrow>
        ex (rotation s')
          = jsAdd (ex (rotation s)) (jsDiv (jsSub (currentPageY t) (previousPageY t)) (Fin 200))
        \<and> ey (rotation s')
          = jsAdd (ey (rotation s)) (jsDiv (jsSub (currentPageX t) (previousPageX t)) (Fin 200))"
  by (auto simp: drag_unfold Euler_def)

lemma drag_angles_finite: "touchAt ev (platformSelect (os E)) = Inr t \<and> Model_handleResponderMove E s ev = Inr s'
        \<and> ex (rotation s) = Fin x \<and> ey (rotation s) = Fin y
        \<and> currentPageX t = Fin cx \<and> previousPageX t = Fin px
        \<and> currentPageY t = Fin cy \<and> previousPageY t = Fin py \<longrightarrow>
        ex (rotation s') = Fin (x + (cy - py) / 200)
        \<and> ey (rotation s') = Fin (y + (cx - px) / 200)"
  by (auto simp: drag_unfold Euler_def jsSub_def)

text \<open>
  Claim C7. A touch move with page deltas \<open>(dx, dy)\<close> replaces the rotation \<open>(x, y)\<close>
  by \<open>(x + dy / 200, y + dx / 200)\<close>, angle by angle: the first angle of the new
  rotation is \<open>x + dy / 200\<close> and the second \<open>y + dx / 200\<close>. It changes nothing else:
  the other state cells keep their values and the third angle is 0 in every reachable
  state. A touch whose bank entry is missing throws. Reset puts every angle back to 0.
\<close>

theorem Model_drag_rotates:
  "(touchAt ev (platformSelect (os E)) = Inr t \<longrightarrow>
      Model_handleResponderMove E s ev =
        Inr (s\<lparr>rotation := Euler
              (jsAdd (ex (rotation s)) (jsDiv (jsSub (currentPageY t) (previousPageY t)) (Fin 200)))
              (jsAdd (ey (rotation s)) (jsDiv (jsSub (currentPageX t) (previousPageX t)) (Fin 200)))\<rparr>))
   \<and> (touchAt ev (platformSelect (os E)) = Inr t \<and> rotation s = Euler (Fin x) (Fin y)
        \<and> currentPageX t = Fin cx \<and> previousPageX t = Fin px
        \<and> currentPageY t = Fin cy \<and> previousPageY t = Fin py \<longrightarrow>
      Model_handleResponderMove E s ev =
        Inr (s\<lparr>rotation := Euler (Fin (x + (cy - py) / 200)) (Fin (y + (cx - px) / 200))\<rparr>))
   \<and> (touchAt ev (platformSelect (os E)) = Inl e \<longrightarrow> Model_handleResponderMove E s ev = Inl e)
   \<and> (Model_handleResponderMove E s ev = Inr s' \<longrightarrow>
        zoom s' = zoom s \<and> baseZoom s' = baseZoom s \<and> index s' = index s
        \<and> sensorColours s' = sensorColours s \<and> ez (rotation s') = Fin 0)
   \<and> ez (rotation (Model_run E P Model_init evs)) = Fin 0
   \<and> rotation (Model_reset s) = Euler (Fin 0) (Fin 0)
   \<and> (touchAt ev (platformSelect (os E)) = Inr t \<and> Model_handleResponderMove E s ev = Inr s' \<longrightarrow>
        ex (rotation s')
          = jsAdd (ex (rotation s)) (jsDiv (jsSub (currentPageY t) (previousPageY t)) (Fin 200))
        \<and> ey (rotation s')
          = jsAdd (ey (rotation s)) (jsDiv (jsSub (currentPageX t) (previousPageX t)) (Fin 200)))
   \<and> (touchAt ev (platformSelect (os E)) = Inr t \<and> Model_handleResponderMove E s ev = Inr s'
        \<and> ex (rotation s) = Fin x \<and> ey (rotation s) = Fin y
        \<and> currentPageX t = Fin cx \<and> previousPageX t = Fin px
        \<and> currentPageY t = Fin cy \<and> previousPageY t = Fin py \<longrightarrow>
        ex (rotation s') = Fin (x + (cy - py) / 200)
        \<and> ey (rotation s') = Fin (y + (cx - px) / 200))
   \<and> ex (rotation (Model_reset s)) = Fin 0
   \<and> ey (rotation (Model_reset s)) = Fin 0
   \<and> ez (rotation (Model_reset s)) = Fin 0"
proof -
  have c3: "touchAt ev (platformSelect (os E)) = Inl e \<longrightarrow> Model_handleResponderMove E s ev = Inl e"
    by (simp add: Model_handleResponderMove_def)
  have "ez (rotation Model_init) = Fin 0" by (simp add: Model_init_def Euler_def)
  then have c5: "ez (rotation (Model_run E P Model_init evs)) = Fin 0" by (rule ez_run)
  have c6: "rotation (Model_reset s) = Euler (Fin 0) (Fin 0)" by (simp add: Model_reset_def)
  have c9: "ex (rotation (Model_reset s)) = Fin 0" by (simp add: Model_reset_def Euler_def)
  have c10: "ey (rotation (Model_reset s)) = Fin 0" by (simp add: Model_reset_def Euler_def)
  have c11: "ez (rotation (Model_reset s)) = Fin 0" by (simp add: Model_reset_def Euler_def)
  show ?thesis
    by (intro conjI) (rule drag_rotation drag_rotation_finite c3 drag_keeps_rest c5 c6 drag_angles
          drag_angles_finite c9 c10 c11)+
qed


theorem Model_drag_rotates_witness:
  "touchAt [Some touch_drag] (platformSelect (os env_demo)) = Inr touch_drag
   \<and> Model_handleResponderMove env_demo Model_init [Some touch_drag]
     = Inr (Model_init\<lparr>rotation := \<lparr>ex = Fin (- 1 / 2), ey = Fin 1, ez = Fin 0\<rparr>\<rparr>)
   \<and> ex (rotation (Model_init\<lparr>rotation := \<lparr>ex = Fin (- 1 / 2), ey = Fin 1, ez = Fin 0\<rparr>\<rparr>))
       = Fin (0 + (50 - 150) / 200)
   \<and> ey (rotation (Model_init\<lparr>rotation := \<lparr>ex = Fin (- 1 / 2), ey = Fin 1, ez = Fin 0\<rparr>\<rparr>))
       = Fin (0 + (300 - 100) / 200)
   \<and> touchAt [] (platformSelect (os env_demo)) = Inl TypeError
   \<and> Model_handleResponderMove env_demo Model_init [] = Inl TypeError
   \<and> zoom (Model_init\<lparr>rotation := \<lparr>ex = Fin (- 1 / 2), ey = Fin 1, ez = Fin 0\<rparr>\<rparr>) = zoom Model_init
   \<and> ex (rotation (Model_reset (Model_init\<lparr>rotation := \<lparr>ex = Fin (- 1 / 2), ey = Fin 1, ez = Fin 0\<rparr>\<rparr>)))
       = Fin 0
   \<and> ey (rotation (Model_reset (Model_init\<lparr>rotation := \<lparr>ex = Fin (- 1 / 2), ey = Fin 1, ez = Fin 0\<rparr>\<rparr>)))
       = Fin 0"
proof -
  let ?s1 = "Model_init\<lparr>rotation := \<lparr>ex = Fin (- 1 / 2), ey = Fin 1, ez = Fin 0\<rparr>\<rparr>"
  note th = Model_drag_rotates [of "[Some touch_drag]" env_demo touch_drag Model_init 0 0 300 100 50 150
      TypeError ?s1 Screen_init "[]"]
  note th_err = Model_drag_rotates [of "[]" env_demo touch_drag Model_init 0 0 300 100 50 150
      TypeError Model_init Screen_init "[]"]
  note th_reset = Model_drag_rotates [of "[]" env_demo touch_drag ?s1 0 0 300 100 50 150
      TypeError Model_init Screen_init "[]"]
  have t: "touchAt [Some touch_drag] (platformSelect (os env_demo)) = Inr touch_drag"
    by (simp add: touchAt_def platformSelect_def env_demo_def)
  have n: "touchAt [] (platformSelect (os env_demo)) = Inl TypeError"
    by (simp add: touchAt_def)
  have r: "ex (rotation Model_init) = Fin 0" "ey (rotation Model_init) = Fin 0"
    by (simp_all add: Model_init_def Euler_def)
  have c: "currentPageX touch_drag = Fin 300" "previousPageX touch_drag = Fin 100"
    "currentPageY touch_drag = Fin 50" "previousPageY touch_drag = Fin 150"
    by (simp_all add: touch_drag_def)
  have "Model_handleResponderMove env_demo Model_init [Some touch_drag] =
      Inr (Model_init\<lparr>rotation := Euler
            (jsAdd (ex (rotation Model_init)) (jsDiv (jsSub (currentPageY touch_drag) (previousPageY touch_drag)) (Fin 200)))
            (jsAdd (ey (rotation Model_init)) (jsDiv (jsSub (currentPageX touch_drag) (previousPageX touch_drag)) (Fin 200)))\<rparr>)"
    by (rule th [THEN conjunct1, THEN mp, OF t])
  then have h: "Model_handleResponderMove env_demo Model_init [Some touch_drag] = Inr ?s1"
    by (simp add: r c Euler_def jsSub_def)
  have hyp: "touchAt [Some touch_drag] (platformSelect (os env_demo)) = Inr touch_drag
      \<and> Model_handleResponderMove env_demo Model_init [Some touch_drag] = Inr ?s1
      \<and> ex (rotation Model_init) = Fin 0 \<and> ey (rotation Model_init) = Fin 0
      \<and> currentPageX touch_drag = Fin 300 \<and> previousPageX touch_drag = Fin 100
      \<and> currentPageY touch_drag = Fin 50 \<and> previousPageY touch_drag = Fin 150"
    by (intro conjI) (rule t h r c)+
  note comp = th [THEN conjunct2, THEN conjunct2, THEN conjunct2, THEN conjunct2, THEN conjunct2,
      THEN conjunct2, THEN conjunct2, THEN conjunct1, THEN mp, OF hyp]
  have w6: "Model_handleResponderMove env_demo Model_init [] = Inl TypeError"
    by (rule th_err [THEN conjunct2, THEN conjunct2, THEN conjunct1, THEN mp, OF n])
  note rest = th [THEN conjunct2, THEN conjunct2, THEN conjunct2, THEN conjunct1, THEN mp, OF h]
  note reset = th_reset [THEN conjunct2, THEN conjunct2, THEN conjunct2, THEN conjunct2, THEN conjunct2,
      THEN conjunct2, THEN conjunct2, THEN conjunct2]
  show ?thesis
    by (intro conjI)
       (rule t h n w6 comp [THEN conjunct1] comp [THEN conjunct2] rest [THEN conjunct1]
          reset [THEN conjunct1] reset [THEN conjunct2, THEN conjunct1])+
qed

section \<open>Properties of the chart\<close>

lemma chart_demo_simps:
  "width chart_demo = Fin 100" "timestamps chart_demo = [Fin 0, Fin 1, Fin 10]"
  "minX chart_demo = Fin 0" "maxX chart_demo = Fin 10" "baseRange chart_demo = (Fin 0, Fin 10)"
  "minInterval chart_demo = Fin 1"
  by (simp_all add: chart_demo_def Chart_timestampsEffect_def Chart_init_def firstTimestamp_def
        lastTimestamp_def numAt_def intervals_def mathMin_def jsMin2_def jsSub_def upt_rec)

lemma pinch_unfold:
  "Chart_handlePinchGestureEvent s sc fx =
     (if pinchRejected s sc fx then s
      else if jsGe (pinchNewMinX s sc fx) (firstTimestamp s)
           then (if jsLe (pinchNewMaxX s sc fx) (lastTimestamp s)
                 then s\<lparr>minX := pinchNewMinX s sc fx, maxX := pinchNewMaxX s sc fx\<rparr>
                 else s\<lparr>minX := pinchNewMinX s sc fx\<rparr>)
           else (if jsLe (pinchNewMaxX s sc fx) (lastTimestamp s)
                 then s\<lparr>maxX := pinchNewMaxX s sc fx\<rparr>
                 else s))"
  by (simp add: Chart_handlePinchGestureEvent_def Let_def)

lemma jsLe_NaN [simp]: "\<not> jsLe x NaN" "\<not> jsLe NaN x"
  by (cases x; simp)+

lemma jsLt_NaN [simp]: "\<not> jsLt x NaN" "\<not> jsLt NaN x"
  by (cases x; simp)+

lemma jsAdd_NaN [simp]: "jsAdd x NaN = NaN" "jsAdd NaN x = NaN"
  by (cases x; simp)+

lemma jsMul_NaN [simp]: "jsMul x NaN = NaN" "jsMul NaN x = NaN"
  by (cases x; simp)+

lemma jsLe_shift:
  "jsLe a b \<Longrightarrow> jsGe (jsSub a c) t \<Longrightarrow> jsLe (jsSub b c) u \<Longrightarrow> jsLe (jsSub a c) (jsSub b c)"
  by (cases a; cases b; cases c) (auto simp: jsSub_def jsGe_def)

lemma pan_unfold:
  "globalPlatform E = Some osName \<Longrightarrow> touchAt ev (platformSelect osName) = Inr t \<Longrightarrow>
   Chart_handleResponderMove E s ev =
     Inr (if jsGe (jsSub (minX s) (panChange s t)) (firstTimestamp s)
             \<and> jsLe (jsSub (maxX s) (panChange s t)) (lastTimestamp s)
          then s\<lparr>minX := jsSub (minX s) (panChange s t), maxX := jsSub (maxX s) (panChange s t)\<rparr>
          else s)"
  by (simp add: Chart_handleResponderMove_def Let_def)

lemma pan_cases:
  assumes "Chart_handleResponderMove E s ev = Inr s'"
  shows "s' = s \<or>
     (\<exists>t. s' = s\<lparr>minX := jsSub (minX s) (panChange s t), maxX := jsSub (maxX s) (panChange s t)\<rparr>
        \<and> jsGe (jsSub (minX s) (panChange s t)) (firstTimestamp s)
        \<and> jsLe (jsSub (maxX s) (panChange s t)) (lastTimestamp s))"
  using assms
  by (auto simp: Chart_handleResponderMove_def Let_def split: option.splits sum.splits if_splits)

lemma windowInside_pan:
  "windowInside s \<Longrightarrow> Chart_handleResponderMove E s ev = Inr s' \<Longrightarrow> windowInside s'"
  by (drule pan_cases) (auto simp: windowInside_def firstTimestamp_def lastTimestamp_def)

lemma windowInside_pinch:
  "windowInside s \<Longrightarrow> windowInside (Chart_handlePinchGestureEvent s sc fx)"
  by (auto simp: pinch_unfold windowInside_def firstTimestamp_def lastTimestamp_def)

lemma windowInside_step: "windowInside s \<Longrightarrow> windowInside (Chart_step E s ev)"
proof (cases ev)
  case (Pan x1)
  assume "windowInside s"
  then show ?thesis using Pan by (auto split: sum.splits dest: windowInside_pan)
next
  case (Pinch x21 x22)
  assume "windowInside s"
  then show ?thesis using Pinch by (simp add: windowInside_pinch)
next
  case (PinchEnd x3)
  assume "windowInside s"
  then show ?thesis using PinchEnd
    by (simp add: Chart_handleStateChange_def windowInside_def firstTimestamp_def lastTimestamp_def)
next
  case (Layout x4)
  assume "windowInside s"
  then show ?thesis using Layout
    by (simp add: windowInside_def firstTimestamp_def lastTimestamp_def)
qed

lemma windowInside_run: "windowInside s \<Longrightarrow> windowInside (Chart_run E s evs)"
  unfolding Chart_run_def
  by (induction evs arbitrary: s) (auto simp: windowInside_step)

lemma ordered_pan:
  "jsLe (minX s) (maxX s) \<Longrightarrow> Chart_handleResponderMove E s ev = Inr s' \<Longrightarrow> jsLe (minX s') (maxX s')"
  by (drule pan_cases) (auto intro: jsLe_shift)

lemma ordered_pans:
  "jsLe (minX s) (maxX s) \<Longrightarrow> jsLe (minX (Chart_run E s (map Pan evs))) (maxX (Chart_run E s (map Pan evs)))"
  unfolding Chart_run_def
  by (induction evs arbitrary: s) (auto split: sum.splits dest: ordered_pan)

lemma timestamps_step: "timestamps (Chart_step E s ev) = timestamps s"
  by (cases ev)
     (auto simp: pinch_unfold Chart_handleStateChange_def split: sum.splits dest!: pan_cases)

lemma timestamps_run: "timestamps (Chart_run E s evs) = timestamps s"
  unfolding Chart_run_def
  by (induction evs arbitrary: s) (auto simp: timestamps_step)

text \<open>
  Claim C5. A touch move shifts both ends of the window by the same amount and is
  applied only if the new lower end is at least the first timestamp and the new upper
  end at most the last one; otherwise, and when the handler throws, both ends stay. So
  a window inside the data stays inside over every sequence of pan events (and over
  every sequence of chart events), with its ends in order when they were.
\<close>

theorem Chart_pan_stays_inside:
  "(globalPlatform E = Some osName \<and> touchAt ev (platformSelect osName) = Inr t \<longrightarrow>
      Chart_handleResponderMove E s ev =
        Inr (if jsGe (jsSub (minX s) (panChange s t)) (firstTimestamp s)
                \<and> jsLe (jsSub (maxX s) (panChange s t)) (lastTimestamp s)
             then s\<lparr>minX := jsSub (minX s) (panChange s t), maxX := jsSub (maxX s) (panChange s t)\<rparr>
             else s))
   \<and> (Chart_handleResponderMove E s ev = Inl e \<longrightarrow> Chart_step E s (Pan ev) = s)
   \<and> (windowInside s \<longrightarrow>
        windowInside (Chart_run E s (map Pan evs))
        \<and> timestamps (Chart_run E s (map Pan evs)) = timestamps s)
   \<and> (jsLe (minX s) (maxX s) \<longrightarrow>
        jsLe (minX (Chart_run E s (map Pan evs))) (maxX (Chart_run E s (map Pan evs))))
   \<and> (windowInside s \<longrightarrow> windowInside (Chart_run E s cevs))"
  by (auto simp: pan_unfold windowInside_run timestamps_run ordered_pans)

theorem Chart_pan_stays_inside_witness:
  "windowInside chart_zoomed
   \<and> jsLe (minX chart_zoomed) (maxX chart_zoomed)
   \<and> Chart_handleResponderMove env_demo chart_zoomed [Some touch_demo]
       = Inr (chart_zoomed\<lparr>minX := Fin 1, maxX := Fin 4\<rparr>)
   \<and> Chart_handleResponderMove (env_demo\<lparr>globalPlatform := None\<rparr>) chart_zoomed [Some touch_demo]
       = Inl ReferenceError
   \<and> Chart_step (env_demo\<lparr>globalPlatform := None\<rparr>) chart_zoomed (Pan [Some touch_demo]) = chart_zoomed
   \<and> windowInside (Chart_run env_demo chart_zoomed (map Pan [[Some touch_demo], [Some touch_demo]]))
   \<and> jsLe (minX (Chart_run env_demo chart_zoomed (map Pan [[Some touch_demo], [Some touch_demo]])))
           (maxX (Chart_run env_demo chart_zoomed (map Pan [[Some touch_demo], [Some touch_demo]])))
   \<and> windowInside (Chart_run env_demo chart_zoomed [Pinch (Fin 2) (Fin 50), Layout (Fin 80)])"
proof -
  have ft: "firstTimestamp chart_zoomed = Fin 0" "lastTimestamp chart_zoomed = Fin 10"
    by (simp_all add: firstTimestamp_def lastTimestamp_def chart_zoomed_def chart_demo_simps numAt_def)
  have mm: "minX chart_zoomed = Fin 2" "maxX chart_zoomed = Fin 5"
    by (simp_all add: chart_zoomed_def)
  have ins: "windowInside chart_zoomed"
    by (simp add: windowInside_def ft jsGe_def mm)
  have ord: "jsLe (minX chart_zoomed) (maxX chart_zoomed)" by (simp add: mm)
  have gp: "globalPlatform env_demo = Some ''android''" by (simp add: env_demo_def)
  have ta: "touchAt [Some touch_demo] (platformSelect ''android'') = Inr touch_demo"
    by (simp add: touchAt_def platformSelect_def)
  have ch: "panChange chart_zoomed touch_demo = Fin 1"
    by (simp add: panChange_def chart_zoomed_def chart_demo_simps touch_demo_def jsSub_def)
  have re: "Chart_handleResponderMove (env_demo\<lparr>globalPlatform := None\<rparr>) chart_zoomed [Some touch_demo]
       = Inl ReferenceError"
    by (simp add: Chart_handleResponderMove_def)
  show ?thesis
    using Chart_pan_stays_inside [of env_demo "''android''" "[Some touch_demo]" touch_demo chart_zoomed
            TypeError "[[Some touch_demo], [Some touch_demo]]" "[Pinch (Fin 2) (Fin 50), Layout (Fin 80)]"]
          Chart_pan_stays_inside [of "env_demo\<lparr>globalPlatform := None\<rparr>" "''android''"
            "[Some touch_demo]" touch_demo chart_zoomed ReferenceError "[]" "[]"]
          ins ord gp ta re
    by (simp add: ch mm ft jsSub_def jsGe_def)
qed

lemma jsSub_self: "jsSub m m = Fin 0 \<or> jsSub m m = NaN"
  by (cases m) (auto simp: jsSub_def)

lemma jsMul_zero_left: "c = Fin 0 \<or> c = NaN \<Longrightarrow> jsMul c y = Fin 0 \<or> jsMul c y = NaN"
  by (cases y) auto

lemma jsMul_zero_right: "c = Fin 0 \<or> c = NaN \<Longrightarrow> jsMul y c = Fin 0 \<or> jsMul y c = NaN"
  by (cases y) auto

lemma jsSub_zero: "c = Fin 0 \<or> c = NaN \<Longrightarrow> jsSub m c = m \<or> jsSub m c = NaN"
  by (cases m) (auto simp: jsSub_def)

lemma jsAdd_zero: "c = Fin 0 \<or> c = NaN \<Longrightarrow> jsAdd m c = m \<or> jsAdd m c = NaN"
  by (cases m) auto

lemma jsSub_NaN_iff: "jsSub m m = NaN \<longleftrightarrow> (\<forall>a. m \<noteq> Fin a)"
  by (cases m) (auto simp: jsSub_def)

lemma singlePoint_change:
  assumes "singlePoint s"
  shows "pinchChange s sc = Fin 0 \<or> pinchChange s sc = NaN"
proof -
  have r: "oldRange s = Fin 0 \<or> oldRange s = NaN"
    using assms jsSub_self [of "minX s"] by (simp add: singlePoint_def oldRange_def)
  then have "jsMul (oldRange s) (jsDiv (Fin 1) sc) = Fin 0 \<or> jsMul (oldRange s) (jsDiv (Fin 1) sc) = NaN"
    by (rule jsMul_zero_left)
  then show ?thesis using r by (auto simp: pinchChange_def jsSub_def)
qed

lemma singlePoint_pinch:
  assumes sp: "singlePoint s"
  shows "Chart_handlePinchGestureEvent s sc fx = s"
proof -
  have mx: "maxX s = minX s" and mi: "minInterval s = PInf" using sp by (simp_all add: singlePoint_def)
  have ch: "pinchChange s sc = Fin 0 \<or> pinchChange s sc = NaN" by (rule singlePoint_change [OF sp])
  have n1: "pinchNewMinX s sc fx = minX s \<or> pinchNewMinX s sc fx = NaN"
    unfolding pinchNewMinX_def by (rule jsSub_zero, rule jsMul_zero_left, rule ch)
  have n2: "pinchNewMaxX s sc fx = minX s \<or> pinchNewMaxX s sc fx = NaN"
    unfolding pinchNewMaxX_def mx by (rule jsAdd_zero, rule jsMul_zero_left, rule ch)
  show ?thesis
  proof (cases "\<exists>a. minX s = Fin a")
    case True
    then obtain a where a: "minX s = Fin a" ..
    have both: "pinchNewMinX s sc fx = minX s \<Longrightarrow> pinchNewMaxX s sc fx = minX s \<Longrightarrow>
        pinchRejected s sc fx"
      by (simp add: pinchRejected_def mi a jsSub_def)
    show ?thesis
      using n1 n2 both by (auto simp: pinch_unfold jsGe_def mx)
  next
    case False
    then have "oldRange s = NaN"
      using sp by (simp add: singlePoint_def oldRange_def jsSub_NaN_iff)
    then have c: "pinchChange s sc = NaN" by (simp add: pinchChange_def jsSub_def)
    have "pinchNewMinX s sc fx = NaN" "pinchNewMaxX s sc fx = NaN"
      by (simp_all add: pinchNewMinX_def pinchNewMaxX_def c jsSub_def)
    then show ?thesis by (simp add: pinch_unfold jsGe_def)
  qed
qed

lemma singlePoint_pan:
  assumes sp: "singlePoint s" and run: "Chart_handleResponderMove E s ev = Inr s'"
  shows "s' = s"
proof -
  have mx: "maxX s = minX s" and br: "baseRange s = (minX s, minX s)"
    using sp by (simp_all add: singlePoint_def)
  have ch: "\<And>t. panChange s t = Fin 0 \<or> panChange s t = NaN"
    unfolding panChange_def br by (rule jsMul_zero_right) (simp add: jsSub_self)
  have n1: "\<And>t. jsSub (minX s) (panChange s t) = minX s \<or> jsSub (minX s) (panChange s t) = NaN"
    by (rule jsSub_zero, rule ch)
  from pan_cases [OF run] show ?thesis
  proof
    assume "s' = s" then show ?thesis .
  next
    assume "\<exists>t. s' = s\<lparr>minX := jsSub (minX s) (panChange s t), maxX := jsSub (maxX s) (panChange s t)\<rparr>
        \<and> jsGe (jsSub (minX s) (panChange s t)) (firstTimestamp s)
        \<and> jsLe (jsSub (maxX s) (panChange s t)) (lastTimestamp s)"
    then obtain t where s': "s' = s\<lparr>minX := jsSub (minX s) (panChange s t), maxX := jsSub (maxX s) (panChange s t)\<rparr>"
      and g: "jsGe (jsSub (minX s) (panChange s t)) (firstTimestamp s)" by blast
    from g n1 [of t] have "jsSub (minX s) (panChange s t) = minX s" by (auto simp: jsGe_def)
    then show ?thesis using s' mx by simp
  qed
qed

lemma singlePoint_step:
  "singlePoint s \<Longrightarrow>
     singlePoint (Chart_step E s ev) \<and> minX (Chart_step E s ev) = minX s \<and> maxX (Chart_step E s ev) = maxX s"
proof (cases ev)
  case (Pan x1)
  assume "singlePoint s"
  then show ?thesis using Pan by (auto split: sum.splits dest: singlePoint_pan)
next
  case (Pinch x21 x22)
  assume "singlePoint s"
  then show ?thesis using Pinch by (simp add: singlePoint_pinch)
next
  case (PinchEnd x3)
  assume "singlePoint s"
  then show ?thesis using PinchEnd by (simp add: Chart_handleStateChange_def singlePoint_def)
next
  case (Layout x4)
  assume "singlePoint s"
  then show ?thesis using Layout by (simp add: singlePoint_def)
qed

lemma singlePoint_run:
  "singlePoint s \<Longrightarrow> minX (Chart_run E s evs) = minX s \<and> maxX (Chart_run E s evs) = maxX s"
  unfolding Chart_run_def
proof (induction evs arbitrary: s)
  case Nil
  then show ?case by simp
next
  case (Cons ev evs)
  from singlePoint_step [OF Cons.prems, of E ev] Cons.IH [of "Chart_step E s ev"]
  show ?case by simp
qed

lemma singlePoint_effect:
  assumes "length (timestamps s) < 2"
  shows "singlePoint (Chart_timestampsEffect s)"
proof -
  have "timestamps s = [] \<or> (\<exists>t. timestamps s = [t])"
    using assms by (cases "timestamps s") (auto simp: less_Suc_eq_0_disj length_Suc_conv)
  then show ?thesis
    by (auto simp: singlePoint_def Chart_timestampsEffect_def intervals_def mathMin_def
          firstTimestamp_def lastTimestamp_def numAt_def)
qed

lemma zoom_in_width:
  assumes a: "minX s = Fin a" and b: "maxX s = Fin b"
    and ch: "pinchChange s sc = Fin ch" and fp: "focalPoint s fx = Fin p"
    and p: "0 \<le> p" "p \<le> 1" and ins: "windowInside s"
  shows "\<exists>a' b'. minX (Chart_handlePinchGestureEvent s sc fx) = Fin a'
           \<and> maxX (Chart_handlePinchGestureEvent s sc fx) = Fin b'
           \<and> (b - a \<le> b' - a' \<or> \<not> jsLt (Fin (b' - a')) (jsMul (Fin 2) (minInterval s)))"
proof -
  have n1: "pinchNewMinX s sc fx = Fin (a - ch * p)"
    by (simp add: pinchNewMinX_def a ch fp jsSub_def)
  have n2: "pinchNewMaxX s sc fx = Fin (b + ch * (1 - p))"
    by (simp add: pinchNewMaxX_def b ch fp jsSub_def)
  show ?thesis
  proof (cases "pinchRejected s sc fx")
    case True
    then show ?thesis by (simp add: pinch_unfold a b)
  next
    case False
    moreover have "jsSub (pinchNewMaxX s sc fx) (pinchNewMinX s sc fx)
        = Fin (b + ch * (1 - p) - (a - ch * p))"
      by (simp add: n1 n2 jsSub_def)
    ultimately have wide:
      "\<not> jsLt (Fin (b + ch * (1 - p) - (a - ch * p))) (jsMul (Fin 2) (minInterval s))"
      unfolding pinchRejected_def by metis
    show ?thesis
    proof (cases "ch \<le> 0")
      case True
      have "ch * p \<le> 0" using True p by (simp add: mult_nonpos_nonneg)
      then have g1: "jsGe (Fin (a - ch * p)) (firstTimestamp s)"
        using ins a by (cases "firstTimestamp s") (auto simp: windowInside_def jsGe_def)
      have "ch * (1 - p) \<le> 0" using True p by (simp add: mult_nonpos_nonneg)
      then have g2: "jsLe (Fin (b + ch * (1 - p))) (lastTimestamp s)"
        using ins b by (cases "lastTimestamp s") (auto simp: windowInside_def)
      show ?thesis using False g1 g2 wide by (simp add: pinch_unfold n1 n2)
    next
      case False
      then have "0 \<le> ch * p" "0 \<le> ch * (1 - p)" using p by simp_all
      then show ?thesis
        using \<open>\<not> pinchRejected s sc fx\<close> by (auto simp: pinch_unfold n1 n2 a b)
    qed
  qed
qed

text \<open>
  The test of the pinch handler works on the proposed window. An event whose proposed
  width \<open>newMaxX - newMinX\<close> is less than \<open>2 * minInterval\<close>, or whose change of width is
  less than a hundredth of the base range, updates neither end. Over fewer than two
  timestamps \<open>minInterval\<close> is \<open>+Infinity\<close> and no chart event moves either end. With
  the focal point within the chart's width and the window inside the data, the window
  after a pinch event is at least as wide as before or at least two sampling intervals
  wide.
\<close>

theorem Chart_pinch_guard:
  "(jsLt (jsSub (pinchNewMaxX s sc fx) (pinchNewMinX s sc fx)) (jsMul (Fin 2) (minInterval s))
      \<or> jsLt (jsAbs (pinchChange s sc)) (jsDiv (oldRange s) (Fin 100)) \<longrightarrow>
      Chart_handlePinchGestureEvent s sc fx = s)
   \<and> (length (timestamps s) < 2 \<longrightarrow>
        minInterval (Chart_timestampsEffect s) = PInf
        \<and> minX (Chart_run E (Chart_timestampsEffect s) evs) = minX (Chart_timestampsEffect s)
        \<and> maxX (Chart_run E (Chart_timestampsEffect s) evs) = maxX (Chart_timestampsEffect s))
   \<and> (minX s = Fin a \<and> maxX s = Fin b \<and> pinchChange s sc = Fin ch \<and> focalPoint s fx = Fin p
        \<and> 0 \<le> p \<and> p \<le> 1 \<and> windowInside s \<longrightarrow>
        (\<exists>a' b'. minX (Chart_handlePinchGestureEvent s sc fx) = Fin a'
           \<and> maxX (Chart_handlePinchGestureEvent s sc fx) = Fin b'
           \<and> (b - a \<le> b' - a' \<or> \<not> jsLt (Fin (b' - a')) (jsMul (Fin 2) (minInterval s)))))"
proof (intro conjI impI)
  assume "jsLt (jsSub (pinchNewMaxX s sc fx) (pinchNewMinX s sc fx)) (jsMul (Fin 2) (minInterval s))
      \<or> jsLt (jsAbs (pinchChange s sc)) (jsDiv (oldRange s) (Fin 100))"
  then show "Chart_handlePinchGestureEvent s sc fx = s"
    by (simp add: pinch_unfold pinchRejected_def)
next
  assume len: "length (timestamps s) < 2"
  from singlePoint_effect [OF len] show "minInterval (Chart_timestampsEffect s) = PInf"
    by (simp add: singlePoint_def)
  from singlePoint_run [OF singlePoint_effect [OF len]]
  show "minX (Chart_run E (Chart_timestampsEffect s) evs) = minX (Chart_timestampsEffect s)"
    and "maxX (Chart_run E (Chart_timestampsEffect s) evs) = maxX (Chart_timestampsEffect s)"
    by simp_all
next
  assume "minX s = Fin a \<and> maxX s = Fin b \<and> pinchChange s sc = Fin ch \<and> focalPoint s fx = Fin p
        \<and> 0 \<le> p \<and> p \<le> 1 \<and> windowInside s"
  then show "\<exists>a' b'. minX (Chart_handlePinchGestureEvent s sc fx) = Fin a'
           \<and> maxX (Chart_handlePinchGestureEvent s sc fx) = Fin b'
           \<and> (b - a \<le> b' - a' \<or> \<not> jsLt (Fin (b' - a')) (jsMul (Fin 2) (minInterval s)))"
    using zoom_in_width by blast
qed

theorem Chart_pinch_guard_witness:
  "jsLt (jsAbs (pinchChange chart_demo (Fin 1))) (jsDiv (oldRange chart_demo) (Fin 100))
   \<and> Chart_handlePinchGestureEvent chart_demo (Fin 1) (Fin 50) = chart_demo
   \<and> length (timestamps (Chart_init\<lparr>timestamps := [Fin 7]\<rparr>)) < 2
   \<and> minX (Chart_run env_demo (Chart_timestampsEffect (Chart_init\<lparr>timestamps := [Fin 7]\<rparr>))
        [Layout (Fin 100), Pinch (Fin 2) (Fin 50)]) = Fin 7
   \<and> windowInside chart_demo
   \<and> pinchChange chart_demo (Fin 2) = Fin (- 5)
   \<and> focalPoint chart_demo (Fin 50) = Fin (1 / 2)
   \<and> (\<exists>a' b'. minX (Chart_handlePinchGestureEvent chart_demo (Fin 2) (Fin 50)) = Fin a'
         \<and> maxX (Chart_handlePinchGestureEvent chart_demo (Fin 2) (Fin 50)) = Fin b'
         \<and> (10 - 0 \<le> b' - a' \<or> \<not> jsLt (Fin (b' - a')) (jsMul (Fin 2) (minInterval chart_demo))))"
proof -
  have g: "jsLt (jsAbs (pinchChange chart_demo (Fin 1))) (jsDiv (oldRange chart_demo) (Fin 100))"
    by (simp add: pinchChange_def oldRange_def chart_demo_simps jsSub_def)
  have len: "length (timestamps (Chart_init\<lparr>timestamps := [Fin 7]\<rparr>)) < 2" by simp
  have m7: "minX (Chart_timestampsEffect (Chart_init\<lparr>timestamps := [Fin 7]\<rparr>)) = Fin 7"
    by (simp add: Chart_timestampsEffect_def firstTimestamp_def numAt_def)
  have ins: "windowInside chart_demo"
    by (simp add: windowInside_def firstTimestamp_def lastTimestamp_def chart_demo_simps
          numAt_def jsGe_def)
  have ch: "pinchChange chart_demo (Fin 2) = Fin (- 5)"
    by (simp add: pinchChange_def oldRange_def chart_demo_simps jsSub_def)
  have fp: "focalPoint chart_demo (Fin 50) = Fin (1 / 2)"
    by (simp add: focalPoint_def chart_demo_simps)
  show ?thesis
    using Chart_pinch_guard [of chart_demo "Fin 1" "Fin 50" env_demo "[]" 0 10 "- 5" "1 / 2"]
          Chart_pinch_guard [of "Chart_init\<lparr>timestamps := [Fin 7]\<rparr>" "Fin 1" "Fin 50" env_demo
             "[Layout (Fin 100), Pinch (Fin 2) (Fin 50)]"]
          Chart_pinch_guard [of chart_demo "Fin 2" "Fin 50" env_demo "[]" 0 10 "- 5" "1 / 2"]
          g len m7 ins ch fp
    by (simp add: chart_demo_simps)
qed

text \<open>
  Claim C9. The pinch-zoom is to never narrow the visible window below two sampling
  intervals; the handler's own comment says not to update when zoomed in beyond three
  points. The handler does narrow it. Its test looks at the proposed window, and the two
  ends are then set one by one, the lower end whenever it is at least the first
  timestamp, the upper end whenever it is at most the last one. On the chart over the
  timestamps 0, 1 and 10 (sampling interval 1, window from 0 to 10, laid out 100 wide),
  a pinch of scale 4 with its focal point at 110, to the right of the chart, proposes
  the window from 8.25 to 10.75. It passes the test, its upper end is refused and its
  lower end is set: the window is now from 8.25 to 10, 1.75 wide. A pinch of scale 5
  with its focal point at 150 sets the lower end to 12, beyond the upper end and the
  last timestamp.
\<close>

theorem Chart_pinch_narrows_window:
  "minInterval chart_demo = Fin 1 \<and> minX chart_demo = Fin 0 \<and> maxX chart_demo = Fin 10
   \<and> firstTimestamp chart_demo = Fin 0 \<and> lastTimestamp chart_demo = Fin 10
   \<and> pinchNewMinX chart_demo (Fin 4) (Fin 110) = Fin (33 / 4)
   \<and> pinchNewMaxX chart_demo (Fin 4) (Fin 110) = Fin (43 / 4)
   \<and> \<not> pinchRejected chart_demo (Fin 4) (Fin 110)
   \<and> minX (Chart_handlePinchGestureEvent chart_demo (Fin 4) (Fin 110)) = Fin (33 / 4)
   \<and> maxX (Chart_handlePinchGestureEvent chart_demo (Fin 4) (Fin 110)) = Fin 10
   \<and> jsLt (jsSub (maxX (Chart_handlePinchGestureEvent chart_demo (Fin 4) (Fin 110)))
                  (minX (Chart_handlePinchGestureEvent chart_demo (Fin 4) (Fin 110))))
           (jsMul (Fin 2) (minInterval chart_demo))
   \<and> \<not> pinchRejected chart_demo (Fin 5) (Fin 150)
   \<and> minX (Chart_handlePinchGestureEvent chart_demo (Fin 5) (Fin 150)) = Fin 12
   \<and> maxX (Chart_handlePinchGestureEvent chart_demo (Fin 5) (Fin 150)) = Fin 10"
proof -
  have ft: "firstTimestamp chart_demo = Fin 0" "lastTimestamp chart_demo = Fin 10"
    by (simp_all add: firstTimestamp_def lastTimestamp_def chart_demo_simps numAt_def)
  have ch: "pinchChange chart_demo (Fin 4) = Fin (- (15 / 2))"
    by (simp add: pinchChange_def oldRange_def chart_demo_simps jsSub_def)
  have fp: "focalPoint chart_demo (Fin 110) = Fin (11 / 10)"
    by (simp add: focalPoint_def chart_demo_simps)
  have mn: "pinchNewMinX chart_demo (Fin 4) (Fin 110) = Fin (33 / 4)"
    by (simp add: pinchNewMinX_def ch fp chart_demo_simps jsSub_def)
  have mx: "pinchNewMaxX chart_demo (Fin 4) (Fin 110) = Fin (43 / 4)"
    by (simp add: pinchNewMaxX_def ch fp chart_demo_simps jsSub_def)
  have rej: "\<not> pinchRejected chart_demo (Fin 4) (Fin 110)"
    by (simp add: pinchRejected_def mn mx ch chart_demo_simps oldRange_def jsSub_def)
  have r1: "Chart_handlePinchGestureEvent chart_demo (Fin 4) (Fin 110) = chart_demo\<lparr>minX := Fin (33 / 4)\<rparr>"
    using rej by (simp add: pinch_unfold mn mx ft jsGe_def)
  have ch': "pinchChange chart_demo (Fin 5) = Fin (- 8)"
    by (simp add: pinchChange_def oldRange_def chart_demo_simps jsSub_def)
  have fp': "focalPoint chart_demo (Fin 150) = Fin (3 / 2)"
    by (simp add: focalPoint_def chart_demo_simps)
  have mn': "pinchNewMinX chart_demo (Fin 5) (Fin 150) = Fin 12"
    by (simp add: pinchNewMinX_def ch' fp' chart_demo_simps jsSub_def)
  have mx': "pinchNewMaxX chart_demo (Fin 5) (Fin 150) = Fin 14"
    by (simp add: pinchNewMaxX_def ch' fp' chart_demo_simps jsSub_def)
  have rej': "\<not> pinchRejected chart_demo (Fin 5) (Fin 150)"
    by (simp add: pinchRejected_def mn' mx' ch' chart_demo_simps oldRange_def jsSub_def)
  have r2: "Chart_handlePinchGestureEvent chart_demo (Fin 5) (Fin 150) = chart_demo\<lparr>minX := Fin 12\<rparr>"
    using rej' by (simp add: pinch_unfold mn' mx' ft jsGe_def)
  show ?thesis
    using rej rej' by (simp add: r1 r2 mn mx ft chart_demo_simps jsSub_def)
qed

section \<open>Properties of the screen container\<close>

lemma liveStatus_fields:
  "live (liveStatusEffect E pr packages s) = (packageServerName pr \<in> set packages)"
  "liveMode (liveStatusEffect E pr packages s) = (liveMode s \<and> packageServerName pr \<in> set packages)"
  "liveData (liveStatusEffect E pr packages s) = liveData s"
  "socket (liveStatusEffect E pr packages s) = socket s"
  by (simp_all add: liveStatusEffect_def Let_def)

text \<open>
  Claim C3. The live-status effect records in \<open>live\<close> whether the package is among the
  live ones, and sets \<open>liveMode\<close> to false whenever it is not; it never turns
  \<open>liveMode\<close> on. So after every live-status update, whatever happened before,
  \<open>liveMode\<close> implies \<open>live\<close>.
\<close>

theorem liveMode_implies_live:
  "(packageServerName pr \<notin> set packages \<longrightarrow> \<not> liveMode (liveStatusEffect E pr packages s))
   \<and> live (liveStatusEffect E pr packages s) = (packageServerName pr \<in> set packages)
   \<and> (liveMode (liveStatusEffect E pr packages s) \<longrightarrow> live (liveStatusEffect E pr packages s))
   \<and> (liveMode (liveStatusEffect E pr packages s) \<longrightarrow> liveMode s)
   \<and> (liveMode (Screen_run E pr s (evs @ [LiveStatus packages])) \<longrightarrow>
         live (Screen_run E pr s (evs @ [LiveStatus packages])))"
  by (simp add: liveStatus_fields Screen_run_def)

theorem liveMode_implies_live_witness:
  "\<not> liveMode (liveStatusEffect env_demo props_demo [''other''] (Screen_init\<lparr>liveMode := True\<rparr>))
   \<and> liveMode (liveStatusEffect env_demo props_demo [''other'', ''pkg''] (Screen_init\<lparr>liveMode := True\<rparr>))
   \<and> live (liveStatusEffect env_demo props_demo [''other'', ''pkg''] (Screen_init\<lparr>liveMode := True\<rparr>))"
  using liveMode_implies_live [of props_demo "[''other'']" env_demo "Screen_init\<lparr>liveMode := True\<rparr>" "[]"]
        liveMode_implies_live [of props_demo "[''other'', ''pkg'']" env_demo "Screen_init\<lparr>liveMode := True\<rparr>" "[]"]
  by (simp add: props_demo_def liveStatus_fields)

lemma onmessage_unfold:
  "jsonParse E m = Some parsed \<Longrightarrow> getProp parsed (packageServerName pr) = Inr smp \<Longrightarrow>
   onmessage E pr s m =
     Inr (s\<lparr>liveData := (if length (liveData s) \<le> 30 then liveData s @ [smp] else [smp])\<rparr>)"
  by (auto simp: onmessage_def)

lemma onmessage_cases:
  assumes "onmessage E pr s m = Inr s'"
  shows "\<exists>smp. s' = s\<lparr>liveData := (if length (liveData s) \<le> 30 then liveData s @ [smp] else [smp])\<rparr>"
  using assms by (auto simp: onmessage_def split: option.splits sum.splits)

lemma setSensorNames_liveData: "liveData (setSensorNames E pr s) = liveData s"
  by (simp add: setSensorNames_def split: sum.splits)

lemma setSensorNames_socket: "socket (setSensorNames E pr s) = socket s"
  by (simp add: setSensorNames_def split: sum.splits)

lemma wsEffect_liveData: "liveData (wsEffect E pr s) = liveData s"
  by (simp add: wsEffect_def setSensorNames_liveData)

lemma wsEffectRerun_liveData:
  "liveData (wsEffectRerun E pr s) = (case socket s of None \<Rightarrow> liveData s | Some _ \<Rightarrow> [])"
  by (simp add: wsEffectRerun_def wsEffect_liveData wsCleanup_def split: option.splits)

lemma refresh_liveData: "liveData (refresh E pr s d w a b) = liveData s"
  by (simp add: refresh_def finish_def refreshAlert_def Let_def split: sum.splits)

lemma liveData_step:
  "length (liveData s) \<le> 31 \<Longrightarrow> length (liveData (Screen_step E pr s ev)) \<le> 31"
proof (cases ev)
  case (LiveStatus x1)
  assume "length (liveData s) \<le> 31"
  then show ?thesis using LiveStatus by (simp add: liveStatus_fields)
next
  case LiveEffect
  assume "length (liveData s) \<le> 31"
  then show ?thesis using LiveEffect by (simp add: wsEffectRerun_liveData split: option.splits)
next
  case (Message m)
  assume "length (liveData s) \<le> 31"
  then show ?thesis using Message
    by (auto split: option.splits sum.splits dest!: onmessage_cases)
next
  case (Refresh x41 x42 x43 x44)
  assume "length (liveData s) \<le> 31"
  then show ?thesis using Refresh by (simp add: refresh_liveData)
next
  case (SetLiveMode x5)
  assume "length (liveData s) \<le> 31"
  then show ?thesis using SetLiveMode by simp
qed

lemma liveData_run:
  "length (liveData s) \<le> 31 \<Longrightarrow> length (liveData (Screen_run E pr s evs)) \<le> 31"
  unfolding Screen_run_def
  by (induction evs arbitrary: s) (auto simp: liveData_step)

text \<open>
  Claim C8. A message that parses appends its sample when \<open>liveData\<close> holds at most 30
  samples and replaces \<open>liveData\<close> by that one sample when it holds more; a message
  whose handler throws changes nothing. So over every sequence of events of the
  container \<open>liveData\<close> never holds more than 31 samples.
\<close>

theorem liveData_bounded:
  "(jsonParse E m = Some parsed \<and> getProp parsed (packageServerName pr) = Inr smp \<longrightarrow>
      onmessage E pr s m =
        Inr (s\<lparr>liveData := (if length (liveData s) \<le> 30 then liveData s @ [smp] else [smp])\<rparr>))
   \<and> (onmessage E pr s m = Inr s' \<longrightarrow>
        (length (liveData s) \<le> 30 \<longrightarrow> length (liveData s') = length (liveData s) + 1)
        \<and> (30 < length (liveData s) \<longrightarrow> length (liveData s') = 1))
   \<and> length (liveData (Screen_run E pr Screen_init evs)) \<le> 31
   \<and> (length (liveData s) \<le> 31 \<longrightarrow> length (liveData (Screen_run E pr s evs)) \<le> 31)"
proof -
  have "length (liveData Screen_init) \<le> 31" by (simp add: Screen_init_def)
  then have "length (liveData (Screen_run E pr Screen_init evs)) \<le> 31" by (rule liveData_run)
  then show ?thesis
    by (auto simp: onmessage_unfold liveData_run dest!: onmessage_cases)
qed


theorem liveData_bounded_witness:
  "jsonParse env_demo message_demo = Some (Obj [(''pkg'', sample_demo)])
   \<and> getProp (Obj [(''pkg'', sample_demo)]) (packageServerName props_demo) = Inr sample_demo
   \<and> length (liveData screen_full) = 31
   \<and> onmessage env_demo props_demo screen_full message_demo = Inr (screen_full\<lparr>liveData := [sample_demo]\<rparr>)
   \<and> length (liveData (screen_full\<lparr>liveData := [sample_demo]\<rparr>)) = 1
   \<and> length (liveData (Screen_run env_demo props_demo screen_full [Message message_demo, Message message_demo])) \<le> 31"
proof -
  have p: "jsonParse env_demo message_demo = Some (Obj [(''pkg'', sample_demo)])"
    by (simp add: env_demo_def)
  have g: "getProp (Obj [(''pkg'', sample_demo)]) (packageServerName props_demo) = Inr sample_demo"
    by (simp add: props_demo_def)
  have l: "length (liveData screen_full) = 31" by (simp add: screen_full_def)
  show ?thesis
    using liveData_bounded [of env_demo message_demo "Obj [(''pkg'', sample_demo)]" props_demo sample_demo
            screen_full "screen_full\<lparr>liveData := [sample_demo]\<rparr>"
            "[Message message_demo, Message message_demo]"]
          p g l
    by simp
qed

text \<open>
  Claim C6 as stated fails: with 31 samples in \<open>liveData\<close> the next message is not
  appended, it replaces them.
\<close>

theorem onmessage_append_counterexample:
  "onmessage env_demo props_demo screen_full message_demo = Inr (screen_full\<lparr>liveData := [sample_demo]\<rparr>)
   \<and> liveData (screen_full\<lparr>liveData := [sample_demo]\<rparr>) \<noteq> liveData screen_full @ [sample_demo]"
proof -
  have p: "jsonParse env_demo message_demo = Some (Obj [(''pkg'', sample_demo)])"
    by (simp add: env_demo_def)
  have g: "getProp (Obj [(''pkg'', sample_demo)]) (packageServerName props_demo) = Inr sample_demo"
    by (simp add: props_demo_def)
  have l: "length (liveData screen_full) = 31" by (simp add: screen_full_def)
  have "onmessage env_demo props_demo screen_full message_demo = Inr (screen_full\<lparr>liveData := [sample_demo]\<rparr>)"
    using p g l by (simp add: onmessage_unfold)
  moreover have "length (liveData (screen_full\<lparr>liveData := [sample_demo]\<rparr>))
      \<noteq> length (liveData screen_full @ [sample_demo])"
    using l by simp
  ultimately show ?thesis by metis
qed

lemma wsEffect_socket:
  "socket (wsEffect E pr s) = (if liveMode s then Some (wsUrl s) else socket s)"
  by (simp add: wsEffect_def setSensorNames_socket)

text \<open>
  Claim C6, as amended. The handler parses the message as JSON, reads the entry of
  the parsed object under the package name (\<^verbatim>\<open>undefined\<close> when there is none) and
  makes it, as it is, the last sample of \<open>liveData\<close>: appended when \<open>liveData\<close> holds at
  most 30 samples, the only sample otherwise. A message that does not parse throws.
  The cleanup closes the socket and empties \<open>liveData\<close>; it runs when the live effect
  runs again, so with \<open>liveMode\<close> turned off no socket is left and \<open>liveData\<close> is
  empty, and with a new data type \<open>liveData\<close> is empty and the socket is the one of the
  new data type.
\<close>

theorem ws_pass_through:
  "(jsonParse E m = Some (Obj kvs) \<longrightarrow>
      onmessage E pr s m =
        Inr (s\<lparr>liveData :=
              (if length (liveData s) \<le> 30
               then liveData s @ [case map_of kvs (packageServerName pr) of None \<Rightarrow> Undefined | Some v \<Rightarrow> v]
               else [case map_of kvs (packageServerName pr) of None \<Rightarrow> Undefined | Some v \<Rightarrow> v])\<rparr>))
   \<and> (jsonParse E m = None \<longrightarrow> onmessage E pr s m = Inl SyntaxError)
   \<and> (onmessage E pr s m = Inr s' \<longrightarrow>
        liveData s' \<noteq> []
        \<and> (\<exists>parsed. jsonParse E m = Some parsed
              \<and> getProp parsed (packageServerName pr) = Inr (last (liveData s'))))
   \<and> socket (wsCleanup s) = None \<and> liveData (wsCleanup s) = []
   \<and> (socket s = Some u \<longrightarrow>
        socket (wsEffectRerun E pr (s\<lparr>liveMode := False\<rparr>)) = None
        \<and> liveData (wsEffectRerun E pr (s\<lparr>liveMode := False\<rparr>)) = [])
   \<and> (socket s = Some u \<and> liveMode s \<longrightarrow>
        liveData (wsEffectRerun E pr (s\<lparr>screenState := (screenState s)\<lparr>liveDataType := t\<rparr>\<rparr>)) = []
        \<and> socket (wsEffectRerun E pr (s\<lparr>screenState := (screenState s)\<lparr>liveDataType := t\<rparr>\<rparr>))
            = Some (''ws://129.169.72.175/fbg/live-data/?data-type='' @ t))"
proof (intro conjI impI)
  assume "jsonParse E m = Some (Obj kvs)"
  then show "onmessage E pr s m =
        Inr (s\<lparr>liveData :=
              (if length (liveData s) \<le> 30
               then liveData s @ [case map_of kvs (packageServerName pr) of None \<Rightarrow> Undefined | Some v \<Rightarrow> v]
               else [case map_of kvs (packageServerName pr) of None \<Rightarrow> Undefined | Some v \<Rightarrow> v])\<rparr>)"
    by (simp add: onmessage_unfold)
next
  assume "jsonParse E m = None"
  then show "onmessage E pr s m = Inl SyntaxError" by (simp add: onmessage_def)
next
  assume r: "onmessage E pr s m = Inr s'"
  then show "liveData s' \<noteq> []" by (auto dest!: onmessage_cases split: if_splits)
  from r show "\<exists>parsed. jsonParse E m = Some parsed
              \<and> getProp parsed (packageServerName pr) = Inr (last (liveData s'))"
    by (auto simp: onmessage_def split: option.splits sum.splits)
next
  show "socket (wsCleanup s) = None" "liveData (wsCleanup s) = []" by (simp_all add: wsCleanup_def)
next
  assume so: "socket s = Some u"
  then show "socket (wsEffectRerun E pr (s\<lparr>liveMode := False\<rparr>)) = None"
    by (simp add: wsEffectRerun_def wsEffect_def wsCleanup_def)
  from so show "liveData (wsEffectRerun E pr (s\<lparr>liveMode := False\<rparr>)) = []"
    by (simp add: wsEffectRerun_liveData)
next
  assume a: "socket s = Some u \<and> liveMode s"
  then show "liveData (wsEffectRerun E pr (s\<lparr>screenState := (screenState s)\<lparr>liveDataType := t\<rparr>\<rparr>)) = []"
    by (simp add: wsEffectRerun_liveData)
  from a show "socket (wsEffectRerun E pr (s\<lparr>screenState := (screenState s)\<lparr>liveDataType := t\<rparr>\<rparr>))
            = Some (''ws://129.169.72.175/fbg/live-data/?data-type='' @ t)"
    by (simp add: wsEffectRerun_def wsEffect_socket wsCleanup_def wsUrl_def)
qed

theorem ws_pass_through_witness:
  "jsonParse env_demo message_demo = Some (Obj [(''pkg'', sample_demo)])
   \<and> onmessage env_demo props_demo Screen_init message_demo
      = Inr (Screen_init\<lparr>liveData := [sample_demo]\<rparr>)
   \<and> getProp (Obj [(''pkg'', sample_demo)]) (packageServerName props_demo)
      = Inr (last (liveData (Screen_init\<lparr>liveData := [sample_demo]\<rparr>)))
   \<and> jsonParse env_demo ''{'' = None
   \<and> onmessage env_demo props_demo screen_full ''{'' = Inl SyntaxError
   \<and> socket screen_full = Some (wsUrl Screen_init) \<and> liveMode screen_full
   \<and> socket (wsEffectRerun env_demo props_demo (screen_full\<lparr>liveMode := False\<rparr>)) = None
   \<and> liveData (wsEffectRerun env_demo props_demo (screen_full\<lparr>liveMode := False\<rparr>)) = []
   \<and> liveData (wsEffectRerun env_demo props_demo
         (screen_full\<lparr>screenState := (screenState screen_full)\<lparr>liveDataType := ''raw''\<rparr>\<rparr>)) = []
   \<and> socket (wsEffectRerun env_demo props_demo
         (screen_full\<lparr>screenState := (screenState screen_full)\<lparr>liveDataType := ''raw''\<rparr>\<rparr>))
       = Some ''ws://129.169.72.175/fbg/live-data/?data-type=raw''"
proof -
  have p: "jsonParse env_demo message_demo = Some (Obj [(''pkg'', sample_demo)])"
    by (simp add: env_demo_def)
  have q: "jsonParse env_demo ''{'' = None"
    by (simp add: env_demo_def message_demo_def)
  have so: "socket screen_full = Some (wsUrl Screen_init)" "liveMode screen_full"
    by (simp_all add: screen_full_def)
  have l: "length (liveData Screen_init) \<le> 30" by (simp add: Screen_init_def)
  have g: "getProp (Obj [(''pkg'', sample_demo)]) (packageServerName props_demo) = Inr sample_demo"
    by (simp add: props_demo_def)
  show ?thesis
    using ws_pass_through [of env_demo message_demo "[(''pkg'', sample_demo)]" props_demo Screen_init
            "Screen_init\<lparr>liveData := [sample_demo]\<rparr>"]
          ws_pass_through [of env_demo "''{''" "[]" props_demo screen_full _ "wsUrl Screen_init" "''raw''"]
          p q so l g
    by (simp add: props_demo_def Screen_init_def)
qed

lemma readings_setProp:
  "map fst (readings (setProp ''timestamp'' v smp)) = filter (\<lambda>k. k \<noteq> ''timestamp'') (map fst smp)"
  by (induction smp) (auto simp: readings_def filter_map o_def)

lemma sensorNames_parsed:
  "map fst (readings (parseTimestamp E smp)) = filter (\<lambda>k. k \<noteq> ''timestamp'') (map fst smp)"
  by (simp add: parseTimestamp_def readings_setProp)

lemma refresh_success:
  assumes "fetchData E (packageURL pr) d w a b = Inr fetched" "fetched \<noteq> []"
    "fetchTemperatureData E a b = Inr temps"
  shows "chartOptions (refresh E pr s d w a b) =
           (chartOptions s)\<lparr> sensors := mapSensors E (filter (\<lambda>k. k \<noteq> ''timestamp'') (map fst (hd fetched))),
                              temperatureData := temps \<rparr>"
    and "alerts (refresh E pr s d w a b) = alerts s"
  using assms
  by (simp_all add: refresh_def finish_def Let_def hd_map sensorNames_parsed)

lemma count_selected: "length (filter (\<lambda>i. i < 3) [0..<n]) = min n 3"
  by (induction n) auto

lemma mapSensors_selected: "length (filter isSelected (mapSensors E names)) = min (length names) 3"
proof -
  have "filter isSelected (mapSensors E names)
      = map (\<lambda>i. \<lparr> name = names ! i, isSelected = (i < 3), colour = colourAt (chartColours E) i \<rparr>)
          (filter (\<lambda>i. i < 3) [0..<length names])"
    by (simp add: mapSensors_def filter_map o_def)
  then show ?thesis by (simp add: count_selected)
qed

text \<open>
  Claim C10. After a fetch of sensor names that succeeds, and after a refresh that
  succeeds (the names are then the keys of the first sample other than \<open>timestamp\<close>),
  the sensor list has one entry per name, in order; the entry at position \<open>i\<close> is
  selected exactly when \<open>i < 3\<close>, so \<open>min n 3\<close> entries are, and its colour is
  \<open>chartColours[i mod length chartColours]\<close>.
\<close>

theorem sensors_rebuilt:
  "(fetchSensorNames E (packageServerName pr) (liveDataType (screenState s)) = Inr names \<longrightarrow>
      sensors (chartOptions (setSensorNames E pr s)) = mapSensors E names)
   \<and> (fetchData E (packageURL pr) d w a b = Inr fetched \<and> fetched \<noteq> []
        \<and> fetchTemperatureData E a b = Inr temps \<longrightarrow>
      sensors (chartOptions (refresh E pr s d w a b))
        = mapSensors E (filter (\<lambda>k. k \<noteq> ''timestamp'') (map fst (hd fetched))))
   \<and> length (mapSensors E names) = length names
   \<and> (\<forall>i < length names.
        name (mapSensors E names ! i) = names ! i
        \<and> isSelected (mapSensors E names ! i) = (i < 3)
        \<and> colour (mapSensors E names ! i)
            = (if chartColours E = [] then None
               else Some (chartColours E ! (i mod length (chartColours E)))))
   \<and> length (filter isSelected (mapSensors E names)) = min (length names) 3"
proof -
  have a: "fetchSensorNames E (packageServerName pr) (liveDataType (screenState s)) = Inr names \<longrightarrow>
      sensors (chartOptions (setSensorNames E pr s)) = mapSensors E names"
    by (simp add: setSensorNames_def)
  have b: "fetchData E (packageURL pr) d w a b = Inr fetched \<and> fetched \<noteq> []
        \<and> fetchTemperatureData E a b = Inr temps \<longrightarrow>
      sensors (chartOptions (refresh E pr s d w a b))
        = mapSensors E (filter (\<lambda>k. k \<noteq> ''timestamp'') (map fst (hd fetched)))"
    by (simp add: refresh_success)
  have c: "length (mapSensors E names) = length names" by (simp add: mapSensors_def)
  have d: "\<forall>i < length names.
        name (mapSensors E names ! i) = names ! i
        \<and> isSelected (mapSensors E names ! i) = (i < 3)
        \<and> colour (mapSensors E names ! i)
            = (if chartColours E = [] then None
               else Some (chartColours E ! (i mod length (chartColours E))))"
    by (simp add: mapSensors_def colourAt_def)
  show ?thesis using a b c d mapSensors_selected [of E names] by blast
qed

theorem sensors_rebuilt_witness:
  "map isSelected (sensors (chartOptions (setSensorNames env_ok props_demo Screen_init)))
      = [True, True, True, False]
   \<and> map colour (sensors (chartOptions (setSensorNames env_ok props_demo Screen_init)))
      = [Some ''red'', Some ''green'', Some ''red'', Some ''green'']
   \<and> map name (sensors (chartOptions (refresh env_ok props_demo Screen_init ''str'' ''hour'' ''t0'' ''t1'')))
      = [''s1'', ''s2'']"
proof -
  have f: "fetchSensorNames env_ok (packageServerName props_demo) (liveDataType (screenState Screen_init))
      = Inr [''s1'', ''s2'', ''s3'', ''s4'']"
    by (simp add: env_ok_def)
  have d: "fetchData env_ok (packageURL props_demo) ''str'' ''hour'' ''t0'' ''t1''
      = Inr [[(''timestamp'', Str ''2020-01-01''), (''s1'', Num (Fin 5)), (''s2'', Num (Fin 7))]]"
    by (simp add: env_ok_def env_half_def)
  have t: "fetchTemperatureData env_ok ''t0'' ''t1'' = Inr (Arr [])"
    by (simp add: env_ok_def)
  have c: "chartColours env_ok = [''red'', ''green'']"
    by (simp add: env_ok_def env_half_def env_demo_def)
  have m4: "mapSensors env_ok [''s1'', ''s2'', ''s3'', ''s4'']
     = [\<lparr>name = ''s1'', isSelected = True, colour = Some ''red''\<rparr>,
        \<lparr>name = ''s2'', isSelected = True, colour = Some ''green''\<rparr>,
        \<lparr>name = ''s3'', isSelected = True, colour = Some ''red''\<rparr>,
        \<lparr>name = ''s4'', isSelected = False, colour = Some ''green''\<rparr>]"
    by (simp add: mapSensors_def colourAt_def c upt_rec mod_Suc)
  have m2: "map name (mapSensors env_ok [''s1'', ''s2'']) = [''s1'', ''s2'']"
    by (simp add: mapSensors_def upt_rec)
  show ?thesis
    using sensors_rebuilt [of env_ok props_demo Screen_init "[''s1'', ''s2'', ''s3'', ''s4'']"
            "''str''" "''hour''" "''t0''" "''t1''"
            "[[(''timestamp'', Str ''2020-01-01''), (''s1'', Num (Fin 5)), (''s2'', Num (Fin 7))]]" "Arr []"]
          f d t
    by (simp add: m4 m2)
qed


lemma refresh_half:
  assumes "fetchData E (packageURL pr) d w a b = Inr fetched" "fetched \<noteq> []"
    "fetchTemperatureData E a b = Inl err"
  shows "refresh E pr s d w a b =
     (if d = ''raw'' then s\<lparr>mode := 1\<rparr> else s)
       \<lparr> data := map (parseTimestamp E) fetched,
         dataRange :=
           [mathMin (map (toNumber E) (concat (map (\<lambda>smp. map snd (readings smp)) (map (parseTimestamp E) fetched)))),
            mathMax (map (toNumber E) (concat (map (\<lambda>smp. map snd (readings smp)) (map (parseTimestamp E) fetched))))],
         screenState := (screenState s)\<lparr> dataType := d, averagingWindow := w, startTime := a, endTime := b \<rparr>,
         alerts := alerts s @ [(''Refresh error'', err)],
         isLoading := False \<rparr>"
  using assms by (simp add: refresh_def finish_def refreshAlert_def Let_def)

text \<open>
  Claim C2, as amended. \<open>refresh\<close> always ends with \<open>isLoading\<close> false and shows one
  alert when it fails, none when it succeeds. When the data request fails or answers no
  sample, nothing else changes. When the temperature request fails, \<open>chartOptions\<close> and
  \<open>modelOptions\<close> keep their values, while \<open>data\<close>, \<open>dataRange\<close> and \<open>screenState\<close> have
  already been set from the fetched samples, and \<open>mode\<close> to 1 for the raw data type; no
  other cell changes. A failing \<open>setSensorNames\<close> shows an alert and sets \<open>liveMode\<close>
  to false, and changes nothing else.
\<close>

theorem refresh_failure_effects:
  "isLoading (refresh E pr s d w a b) = False
   \<and> (fetchData E (packageURL pr) d w a b = Inl err \<longrightarrow>
        refresh E pr s d w a b
          = s\<lparr>isLoading := False, alerts := alerts s @ [(''Refresh error'', err)]\<rparr>)
   \<and> (fetchData E (packageURL pr) d w a b = Inr [] \<longrightarrow>
        refresh E pr s d w a b
          = s\<lparr>isLoading := False,
              alerts := alerts s @ [(''Refresh error'', ''No data available for this time period'')]\<rparr>)
   \<and> (fetchData E (packageURL pr) d w a b = Inr fetched \<and> fetched \<noteq> []
        \<and> fetchTemperatureData E a b = Inl err \<longrightarrow>
        chartOptions (refresh E pr s d w a b) = chartOptions s
        \<and> modelOptions (refresh E pr s d w a b) = modelOptions s
        \<and> alerts (refresh E pr s d w a b) = alerts s @ [(''Refresh error'', err)]
        \<and> data (refresh E pr s d w a b) = map (parseTimestamp E) fetched
        \<and> screenState (refresh E pr s d w a b)
            = (screenState s)\<lparr> dataType := d, averagingWindow := w, startTime := a, endTime := b \<rparr>
        \<and> dataRange (refresh E pr s d w a b)
            = [mathMin (map (toNumber E)
                 (concat (map (\<lambda>smp. map snd (readings smp)) (map (parseTimestamp E) fetched)))),
               mathMax (map (toNumber E)
                 (concat (map (\<lambda>smp. map snd (readings smp)) (map (parseTimestamp E) fetched))))]
        \<and> mode (refresh E pr s d w a b) = (if d = ''raw'' then 1 else mode s)
        \<and> refresh E pr s d w a b
            = s\<lparr> data := data (refresh E pr s d w a b),
                 dataRange := dataRange (refresh E pr s d w a b),
                 mode := mode (refresh E pr s d w a b),
                 screenState := screenState (refresh E pr s d w a b),
                 alerts := alerts s @ [(''Refresh error'', err)],
                 isLoading := False \<rparr>)
   \<and> (fetchData E (packageURL pr) d w a b = Inr fetched \<and> fetched \<noteq> []
        \<and> fetchTemperatureData E a b = Inr temps \<longrightarrow>
        alerts (refresh E pr s d w a b) = alerts s)
   \<and> (fetchSensorNames E (packageServerName pr) (liveDataType (screenState s)) = Inl err \<longrightarrow>
        setSensorNames E pr s
          = s\<lparr>alerts := alerts s @ [(''Live data error'', ''Could not fetch sensor names'')],
              liveMode := False\<rparr>)"
proof -
  have l: "isLoading (refresh E pr s d w a b) = False"
    by (simp add: refresh_def finish_def Let_def split: sum.splits)
  have f1: "fetchData E (packageURL pr) d w a b = Inl err \<longrightarrow>
        refresh E pr s d w a b
          = s\<lparr>isLoading := False, alerts := alerts s @ [(''Refresh error'', err)]\<rparr>"
    by (simp add: refresh_def finish_def refreshAlert_def)
  have f2: "fetchData E (packageURL pr) d w a b = Inr [] \<longrightarrow>
        refresh E pr s d w a b
          = s\<lparr>isLoading := False,
              alerts := alerts s @ [(''Refresh error'', ''No data available for this time period'')]\<rparr>"
    by (simp add: refresh_def finish_def refreshAlert_def)
  have f3: "fetchData E (packageURL pr) d w a b = Inr fetched \<and> fetched \<noteq> []
        \<and> fetchTemperatureData E a b = Inl err \<longrightarrow>
        chartOptions (refresh E pr s d w a b) = chartOptions s
        \<and> modelOptions (refresh E pr s d w a b) = modelOptions s
        \<and> alerts (refresh E pr s d w a b) = alerts s @ [(''Refresh error'', err)]
        \<and> data (refresh E pr s d w a b) = map (parseTimestamp E) fetched
        \<and> screenState (refresh E pr s d w a b)
            = (screenState s)\<lparr> dataType := d, averagingWindow := w, startTime := a, endTime := b \<rparr>
        \<and> dataRange (refresh E pr s d w a b)
            = [mathMin (map (toNumber E)
                 (concat (map (\<lambda>smp. map snd (readings smp)) (map (parseTimestamp E) fetched)))),
               mathMax (map (toNumber E)
                 (concat (map (\<lambda>smp. map snd (readings smp)) (map (parseTimestamp E) fetched))))]
        \<and> mode (refresh E pr s d w a b) = (if d = ''raw'' then 1 else mode s)
        \<and> refresh E pr s d w a b
            = s\<lparr> data := data (refresh E pr s d w a b),
                 dataRange := dataRange (refresh E pr s d w a b),
                 mode := mode (refresh E pr s d w a b),
                 screenState := screenState (refresh E pr s d w a b),
                 alerts := alerts s @ [(''Refresh error'', err)],
                 isLoading := False \<rparr>"
    by (simp add: refresh_half)
  have f4: "fetchData E (packageURL pr) d w a b = Inr fetched \<and> fetched \<noteq> []
        \<and> fetchTemperatureData E a b = Inr temps \<longrightarrow>
        alerts (refresh E pr s d w a b) = alerts s"
    by (simp add: refresh_success)
  have f5: "fetchSensorNames E (packageServerName pr) (liveDataType (screenState s)) = Inl err \<longrightarrow>
        setSensorNames E pr s
          = s\<lparr>alerts := alerts s @ [(''Live data error'', ''Could not fetch sensor names'')],
              liveMode := False\<rparr>"
    by (simp add: setSensorNames_def)
  show ?thesis by (intro conjI) (rule l f1 f2 f3 f4 f5)+
qed

lemma demo_fetches:
  "fetchData env_demo (packageURL props_demo) ''str'' ''hour'' ''t0'' ''t1'' = Inl ''offline''"
  "fetchData env_half (packageURL props_demo) ''str'' ''hour'' ''t0'' ''t1''
      = Inr [[(''timestamp'', Str ''2020-01-01''), (''s1'', Num (Fin 5)), (''s2'', Num (Fin 7))]]"
  "fetchTemperatureData env_half ''t0'' ''t1'' = Inl ''offline''"
  "fetchSensorNames env_demo (packageServerName props_demo) (liveDataType (screenState (Screen_init\<lparr>liveMode := True\<rparr>)))
      = Inl ''offline''"
  by (simp_all add: env_demo_def env_half_def)

lemma demo_fetches2:
  "fetchData (env_demo\<lparr>fetchData := (\<lambda>u t w a b. Inr [])\<rparr>) (packageURL props_demo) ''str'' ''hour'' ''t0'' ''t1''
      = Inr []"
  "fetchData env_ok (packageURL props_demo) ''str'' ''hour'' ''t0'' ''t1''
      = Inr [[(''timestamp'', Str ''2020-01-01''), (''s1'', Num (Fin 5)), (''s2'', Num (Fin 7))]]"
  "fetchTemperatureData env_ok ''t0'' ''t1'' = Inr (Arr [])"
  by (simp_all add: env_ok_def env_half_def)

lemma demo_fetches3:
  "fetchData env_half (packageURL props_demo) ''raw'' ''hour'' ''t0'' ''t1''
      = Inr [[(''timestamp'', Str ''2020-01-01''), (''s1'', Num (Fin 5)), (''s2'', Num (Fin 7))]]"
  by (simp add: env_half_def)

lemma demo_range:
  "[mathMin (map (toNumber env_half)
       (concat (map (\<lambda>smp. map snd (readings smp))
          (map (parseTimestamp env_half)
             [[(''timestamp'', Str ''2020-01-01''), (''s1'', Num (Fin 5)), (''s2'', Num (Fin 7))]])))),
    mathMax (map (toNumber env_half)
       (concat (map (\<lambda>smp. map snd (readings smp))
          (map (parseTimestamp env_half)
             [[(''timestamp'', Str ''2020-01-01''), (''s1'', Num (Fin 5)), (''s2'', Num (Fin 7))]]))))]
   = [Fin 5, Fin 7]"
  by (simp add: parseTimestamp_def readings_def mathMin_def mathMax_def jsMin2_def jsMax2_def)

theorem refresh_failure_effects_witness:
  "refresh env_demo props_demo Screen_init ''str'' ''hour'' ''t0'' ''t1''
      = Screen_init\<lparr>isLoading := False, alerts := [(''Refresh error'', ''offline'')]\<rparr>
   \<and> refresh (env_demo\<lparr>fetchData := (\<lambda>u t w a b. Inr [])\<rparr>) props_demo Screen_init ''str'' ''hour'' ''t0'' ''t1''
      = Screen_init\<lparr>isLoading := False,
           alerts := [(''Refresh error'', ''No data available for this time period'')]\<rparr>
   \<and> chartOptions (refresh env_half props_demo Screen_init ''str'' ''hour'' ''t0'' ''t1'')
      = chartOptions Screen_init
   \<and> alerts (refresh env_half props_demo Screen_init ''str'' ''hour'' ''t0'' ''t1'')
      = [(''Refresh error'', ''offline'')]
   \<and> dataRange (refresh env_half props_demo Screen_init ''str'' ''hour'' ''t0'' ''t1'') = [Fin 5, Fin 7]
   \<and> mode (refresh env_half props_demo Screen_init ''str'' ''hour'' ''t0'' ''t1'') = 0
   \<and> mode (refresh env_half props_demo Screen_init ''raw'' ''hour'' ''t0'' ''t1'') = 1
   \<and> alerts (refresh env_ok props_demo Screen_init ''str'' ''hour'' ''t0'' ''t1'') = []
   \<and> setSensorNames env_demo props_demo (Screen_init\<lparr>liveMode := True\<rparr>)
      = Screen_init\<lparr>alerts := [(''Live data error'', ''Could not fetch sensor names'')],
                     liveMode := False\<rparr>"
proof -
  let ?fetched = "[[(''timestamp'', Str ''2020-01-01''), (''s1'', Num (Fin 5)), (''s2'', Num (Fin 7))]]"
  have al: "alerts Screen_init = []" and md: "mode Screen_init = 0"
    by (simp_all add: Screen_init_def)
  note t1 = refresh_failure_effects [of env_demo props_demo Screen_init "''str''" "''hour''" "''t0''" "''t1''"
      "''offline''" ?fetched "Arr []"]
  note t2 = refresh_failure_effects [of "env_demo\<lparr>fetchData := (\<lambda>u t w a b. Inr [])\<rparr>" props_demo
      Screen_init "''str''" "''hour''" "''t0''" "''t1''" "''offline''" ?fetched "Arr []"]
  note t3 = refresh_failure_effects [of env_half props_demo Screen_init "''str''" "''hour''" "''t0''" "''t1''"
      "''offline''" ?fetched "Arr []"]
  note t4 = refresh_failure_effects [of env_half props_demo Screen_init "''raw''" "''hour''" "''t0''" "''t1''"
      "''offline''" ?fetched "Arr []"]
  note t5 = refresh_failure_effects [of env_ok props_demo Screen_init "''str''" "''hour''" "''t0''" "''t1''"
      "''offline''" ?fetched "Arr []"]
  note t6 = refresh_failure_effects [of env_demo props_demo "Screen_init\<lparr>liveMode := True\<rparr>" "''str''"
      "''hour''" "''t0''" "''t1''" "''offline''" ?fetched "Arr []"]
  have wA: "refresh env_demo props_demo Screen_init ''str'' ''hour'' ''t0'' ''t1''
      = Screen_init\<lparr>isLoading := False, alerts := [(''Refresh error'', ''offline'')]\<rparr>"
    using t1 [THEN conjunct2, THEN conjunct1, THEN mp, OF demo_fetches(1)] by (simp add: al)
  have wB: "refresh (env_demo\<lparr>fetchData := (\<lambda>u t w a b. Inr [])\<rparr>) props_demo Screen_init ''str'' ''hour'' ''t0'' ''t1''
      = Screen_init\<lparr>isLoading := False,
           alerts := [(''Refresh error'', ''No data available for this time period'')]\<rparr>"
    using t2 [THEN conjunct2, THEN conjunct2, THEN conjunct1, THEN mp, OF demo_fetches2(1)]
    by (simp add: al)
  have h3: "fetchData env_half (packageURL props_demo) ''str'' ''hour'' ''t0'' ''t1'' = Inr ?fetched
      \<and> ?fetched \<noteq> [] \<and> fetchTemperatureData env_half ''t0'' ''t1'' = Inl ''offline''"
    using demo_fetches(2,3) by simp
  have h4: "fetchData env_half (packageURL props_demo) ''raw'' ''hour'' ''t0'' ''t1'' = Inr ?fetched
      \<and> ?fetched \<noteq> [] \<and> fetchTemperatureData env_half ''t0'' ''t1'' = Inl ''offline''"
    using demo_fetches3 demo_fetches(3) by simp
  have h5: "fetchData env_ok (packageURL props_demo) ''str'' ''hour'' ''t0'' ''t1'' = Inr ?fetched
      \<and> ?fetched \<noteq> [] \<and> fetchTemperatureData env_ok ''t0'' ''t1'' = Inr (Arr [])"
    using demo_fetches2(2,3) by simp
  note c3 = t3 [THEN conjunct2, THEN conjunct2, THEN conjunct2, THEN conjunct1, THEN mp, OF h3]
  note c4 = t4 [THEN conjunct2, THEN conjunct2, THEN conjunct2, THEN conjunct1, THEN mp, OF h4]
  have wC: "chartOptions (refresh env_half props_demo Screen_init ''str'' ''hour'' ''t0'' ''t1'')
      = chartOptions Screen_init"
    by (rule c3 [THEN conjunct1])
  have wD: "alerts (refresh env_half props_demo Screen_init ''str'' ''hour'' ''t0'' ''t1'')
      = [(''Refresh error'', ''offline'')]"
    using c3 [THEN conjunct2, THEN conjunct2, THEN conjunct1] by (simp add: al)
  have wE: "dataRange (refresh env_half props_demo Screen_init ''str'' ''hour'' ''t0'' ''t1'') = [Fin 5, Fin 7]"
    using c3 [THEN conjunct2, THEN conjunct2, THEN conjunct2, THEN conjunct2, THEN conjunct2, THEN conjunct1]
    by (simp only: demo_range)
  have wF: "mode (refresh env_half props_demo Screen_init ''str'' ''hour'' ''t0'' ''t1'') = 0"
    using c3 [THEN conjunct2, THEN conjunct2, THEN conjunct2, THEN conjunct2, THEN conjunct2,
        THEN conjunct2, THEN conjunct1]
    by (simp add: md)
  have wG: "mode (refresh env_half props_demo Screen_init ''raw'' ''hour'' ''t0'' ''t1'') = 1"
    using c4 [THEN conjunct2, THEN conjunct2, THEN conjunct2, THEN conjunct2, THEN conjunct2,
        THEN conjunct2, THEN conjunct1]
    by simp
  have wH: "alerts (refresh env_ok props_demo Screen_init ''str'' ''hour'' ''t0'' ''t1'') = []"
    using t5 [THEN conjunct2, THEN conjunct2, THEN conjunct2, THEN conjunct2, THEN conjunct1, THEN mp, OF h5]
    by (simp add: al)
  have wI: "setSensorNames env_demo props_demo (Screen_init\<lparr>liveMode := True\<rparr>)
      = Screen_init\<lparr>alerts := [(''Live data error'', ''Could not fetch sensor names'')],
                     liveMode := False\<rparr>"
    using t6 [THEN conjunct2, THEN conjunct2, THEN conjunct2, THEN conjunct2, THEN conjunct2, THEN mp,
        OF demo_fetches(4)]
    by (simp add: al)
  show ?thesis by (intro conjI) (rule wA wB wC wD wE wF wG wH wI)+
qed

text \<open>
  Claim C2 as stated fails: a refresh whose data request succeeds and whose temperature
  request fails shows the alert after \<open>data\<close>, \<open>dataRange\<close> and \<open>screenState\<close> have
  changed; and a failing \<open>setSensorNames\<close> does more than alert, it leaves live mode.
\<close>

theorem refresh_not_atomic_counterexample:
  "alerts (refresh env_half props_demo Screen_init ''str'' ''hour'' ''t0'' ''t1'')
      = [(''Refresh error'', ''offline'')]
   \<and> data (refresh env_half props_demo Screen_init ''str'' ''hour'' ''t0'' ''t1'')
      = [[(''timestamp'', Num (Fin 10)), (''s1'', Num (Fin 5)), (''s2'', Num (Fin 7))]]
   \<and> data Screen_init = []
   \<and> dataRange (refresh env_half props_demo Screen_init ''str'' ''hour'' ''t0'' ''t1'') = [Fin 5, Fin 7]
   \<and> dataRange Screen_init = []
   \<and> dataType (screenState (refresh env_half props_demo Screen_init ''str'' ''hour'' ''t0'' ''t1'')) = ''str''
   \<and> dataType (screenState Screen_init) = []
   \<and> liveMode (Screen_init\<lparr>liveMode := True\<rparr>)
   \<and> \<not> liveMode (setSensorNames env_demo props_demo (Screen_init\<lparr>liveMode := True\<rparr>))"
proof -
  have dp: "dateParse env_half (Str ''2020-01-01'') = Fin 10"
    by (simp add: env_half_def env_demo_def)
  have pt: "parseTimestamp env_half [(''timestamp'', Str ''2020-01-01''), (''s1'', Num (Fin 5)), (''s2'', Num (Fin 7))]
      = [(''timestamp'', Num (Fin 10)), (''s1'', Num (Fin 5)), (''s2'', Num (Fin 7))]"
    by (simp add: parseTimestamp_def dp)
  have r: "refresh env_half props_demo Screen_init ''str'' ''hour'' ''t0'' ''t1'' =
      Screen_init
       \<lparr> data := [[(''timestamp'', Num (Fin 10)), (''s1'', Num (Fin 5)), (''s2'', Num (Fin 7))]],
         dataRange := [Fin 5, Fin 7],
         screenState := (screenState Screen_init)
            \<lparr> dataType := ''str'', averagingWindow := ''hour'', startTime := ''t0'', endTime := ''t1'' \<rparr>,
         alerts := alerts Screen_init @ [(''Refresh error'', ''offline'')],
         isLoading := False \<rparr>"
    by (simp add: refresh_half [OF demo_fetches(2) _ demo_fetches(3)] pt readings_def
          mathMin_def mathMax_def jsMin2_def jsMax2_def)
  have sn: "\<not> liveMode (setSensorNames env_demo props_demo (Screen_init\<lparr>liveMode := True\<rparr>))"
    using demo_fetches(4) by (simp add: setSensorNames_def)
  show ?thesis using sn by (simp add: r) (simp add: Screen_init_def)
qed

end
